(* ===== verification/Prelude.thy ===== *)
theory Prelude
  imports Complex_Main
begin

text \<open>
  Shared vocabulary of the development: the glm vector types the C++ sources use
  (\<open>glm::vec2\<close>, \<open>glm::vec4\<close>) as records over \<open>real\<close>, the two glm functions the
  sources call (\<open>glm::normalize\<close>, \<open>glm::wrapAngle\<close>), the error type of the model,
  the collection \<open>eval_simps\<close> of definitions unfolded when a witness evaluates a
  concrete run, and generic lemmas on floor-based reduction used by the motion
  component. Single-precision floats of the sources are modelled as exact reals:
  rounding is not modelled.
\<close>

named_theorems eval_simps "definitions unfolded to evaluate the model on concrete inputs"

section \<open>glm vector types\<close>

record vec2 =
  vx :: real
  vy :: real

record vec4 =
  vr :: real
  vg :: real
  vb :: real
  va :: real

definition vec2_zero :: vec2 where
  "vec2_zero = \<lparr>vx = 0, vy = 0\<rparr>"

definition vec2_scale :: "real \<Rightarrow> vec2 \<Rightarrow> vec2" where
  "vec2_scale c v = \<lparr>vx = c * vx v, vy = c * vy v\<rparr>"

definition vec2_length :: "vec2 \<Rightarrow> real" where
  "vec2_length v = sqrt (vx v * vx v + vy v * vy v)"

text \<open>
  \<open>glm::normalize(v)\<close> is \<open>v * inversesqrt(dot(v, v))\<close>. For the zero vector C++
  yields NaN components, HOL division by zero yields 0: the two agree on every
  non-zero vector, which is the only case the sources reach (see
  \<open>Asteroid.createAsteroid_velocity_length\<close>).
\<close>

definition glm_normalize :: "vec2 \<Rightarrow> vec2" where
  "glm_normalize v = vec2_scale (1 / vec2_length v) v"

text \<open>
  \<open>glm::wrapAngle(a)\<close> is \<open>abs(mod(a, two_pi))\<close>, where glm's \<open>mod(x, y)\<close> is
  \<open>x - y * floor(x / y)\<close>.
\<close>

definition glm_mod :: "real \<Rightarrow> real \<Rightarrow> real" where
  "glm_mod x y = x - y * of_int \<lfloor>x / y\<rfloor>"

definition glm_wrapAngle :: "real \<Rightarrow> real" where
  "glm_wrapAngle a = \<bar>glm_mod a (2 * pi)\<bar>"

declare vec2_zero_def [eval_simps] vec2_scale_def [eval_simps] Let_def [eval_simps]

section \<open>Errors\<close>

text \<open>
  The only failure the sources can reach: \<open>std::list::resize\<close> with a negative
  \<open>int\<close> converted to \<open>size_t\<close> asks for about \<open>2^64\<close> nodes and throws
  \<open>std::bad_alloc\<close>, which nothing catches.
\<close>

datatype error = Bad_alloc

section \<open>Generic lemmas\<close>

lemma glm_mod_bounds:
  assumes "0 < y"
  shows "0 \<le> glm_mod x y \<and> glm_mod x y < y"
proof -
  have "of_int \<lfloor>x / y\<rfloor> \<le> x / y" and "x / y < of_int \<lfloor>x / y\<rfloor> + 1"
    by linarith+
  with assms have "of_int \<lfloor>x / y\<rfloor> * y \<le> x" and "x < (of_int \<lfloor>x / y\<rfloor> + 1) * y"
    by (simp_all only: pos_le_divide_eq pos_divide_less_eq)
  then show ?thesis by (simp add: glm_mod_def algebra_simps)
qed

lemma glm_mod_id:
  assumes "0 \<le> x" and "x < y"
  shows "glm_mod x y = x"
proof -
  from assms have "\<lfloor>x / y\<rfloor> = 0"
    by (simp add: floor_eq_iff)
  then show ?thesis by (simp add: glm_mod_def)
qed

lemma glm_mod_periodic:
  assumes "0 < y"
  shows "glm_mod (x + of_int k * y) y = glm_mod x y"
proof -
  from assms have "(x + of_int k * y) / y = x / y + of_int k"
    by (simp add: field_simps)
  then have "\<lfloor>(x + of_int k * y) / y\<rfloor> = \<lfloor>x / y\<rfloor> + k"
    by simp
  then show ?thesis by (simp add: glm_mod_def algebra_simps)
qed

lemma two_pi_pos [simp]: "0 < 2 * pi"
  by simp

lemma vec2_length_scale:
  assumes "0 \<le> c"
  shows "vec2_length (vec2_scale c v) = c * vec2_length v"
proof -
  have "vx (vec2_scale c v) * vx (vec2_scale c v) + vy (vec2_scale c v) * vy (vec2_scale c v)
      = c\<^sup>2 * (vx v * vx v + vy v * vy v)"
    by (simp add: vec2_scale_def power2_eq_square algebra_simps)
  then show ?thesis
    using assms by (simp add: vec2_length_def real_sqrt_mult)
qed

lemma vec2_length_pos:
  "v \<noteq> vec2_zero \<Longrightarrow> 0 < vec2_length v"
proof -
  assume "v \<noteq> vec2_zero"
  then have "vx v \<noteq> 0 \<or> vy v \<noteq> 0"
    by (cases v) (auto simp: vec2_zero_def)
  then have "0 < vx v * vx v + vy v * vy v"
    by (simp only: sum_squares_gt_zero_iff)
  then show ?thesis by (simp add: vec2_length_def)
qed

lemma glm_normalize_length:
  "v \<noteq> vec2_zero \<Longrightarrow> vec2_length (glm_normalize v) = 1"
  using vec2_length_pos [of v] by (simp add: glm_normalize_def vec2_length_scale)

end
