(* ===== verification/GL.thy ===== *)
theory GL
  imports Prelude
begin

text \<open>
  The OpenGL context the components talk to (spec section 6, the Render Adapter's
  allocation, binding and draw interface; the driver is not part of the repository).
  Its state is a record: the live buffer and vertex-array names, the name counters,
  the current bindings, buffer contents, the source buffer of each vertex array's
  position attribute, uniform values, and the log of issued draw calls. Name
  generation returns a value and is a function of its own; every other call the
  sources make is a constructor of \<open>gl_cmd\<close>, and a call sequence is run by
  \<open>gl_run\<close>, as a stack machine runs its instruction list.
\<close>

record draw_call =
  dc_program :: nat
  dc_vao :: nat
  dc_first :: nat
  dc_count :: int
  dc_translation :: "real list"

record gl_state =
  gl_buffers :: "nat set"
  gl_arrays :: "nat set"
  gl_next_buffer :: nat
  gl_next_array :: nat
  gl_array_buffer :: nat
  gl_vertex_array :: nat
  gl_program :: nat
  gl_buffer_data :: "nat \<Rightarrow> vec2 list option"
  gl_vao_source :: "nat \<Rightarrow> nat option"
  gl_vao_enabled :: "nat \<Rightarrow> int set"
  gl_uniforms :: "int \<Rightarrow> real list"
  gl_draws :: "draw_call list"
  gl_uniform_location :: "nat \<Rightarrow> string \<Rightarrow> int"
  gl_attrib_location :: "nat \<Rightarrow> string \<Rightarrow> int"

datatype gl_cmd =
    UseProgram nat
  | BindBuffer nat
  | BufferData "vec2 list"
  | BindVertexArray nat
  | EnableVertexAttribArray int
  | VertexAttribPointer int nat
  | Uniform4fv int vec4
  | Uniform1f int real
  | Uniform2f int real real
  | DrawArraysFan nat int
  | DeleteBuffer nat
  | DeleteVertexArray nat

text \<open>
  A fresh context: nothing allocated, names start at 1 (0 is the reserved "no
  object" name the sources bind to unbind), the program interface given by the
  linked shader (\<open>ul\<close>, \<open>al\<close>).
\<close>

definition gl_init :: "(nat \<Rightarrow> string \<Rightarrow> int) \<Rightarrow> (nat \<Rightarrow> string \<Rightarrow> int) \<Rightarrow> gl_state" where
  "gl_init ul al = \<lparr>gl_buffers = {}, gl_arrays = {}, gl_next_buffer = 1, gl_next_array = 1,
     gl_array_buffer = 0, gl_vertex_array = 0, gl_program = 0,
     gl_buffer_data = (\<lambda>_. None), gl_vao_source = (\<lambda>_. None), gl_vao_enabled = (\<lambda>_. {}),
     gl_uniforms = (\<lambda>_. []), gl_draws = [],
     gl_uniform_location = ul, gl_attrib_location = al\<rparr>"

definition glGenBuffers :: "gl_state \<Rightarrow> nat \<times> gl_state" where
  "glGenBuffers g = (gl_next_buffer g,
     g\<lparr>gl_buffers := insert (gl_next_buffer g) (gl_buffers g),
       gl_next_buffer := Suc (gl_next_buffer g)\<rparr>)"

definition glGenVertexArrays :: "gl_state \<Rightarrow> nat \<times> gl_state" where
  "glGenVertexArrays g = (gl_next_array g,
     g\<lparr>gl_arrays := insert (gl_next_array g) (gl_arrays g),
       gl_next_array := Suc (gl_next_array g)\<rparr>)"

text \<open>
  One call. Deleting a name that is not live is silently ignored, and deleting a
  bound object reverts the binding to 0, as the GL specification says; a uniform
  location of -1 (not found in the program) is ignored.
\<close>

fun gl_exec :: "gl_cmd \<Rightarrow> gl_state \<Rightarrow> gl_state" where
  "gl_exec (UseProgram p) g = g\<lparr>gl_program := p\<rparr>"
| "gl_exec (BindBuffer b) g = g\<lparr>gl_array_buffer := b\<rparr>"
| "gl_exec (BufferData vs) g =
     (if gl_array_buffer g = 0 then g
      else g\<lparr>gl_buffer_data := (gl_buffer_data g)(gl_array_buffer g := Some vs)\<rparr>)"
| "gl_exec (BindVertexArray a) g = g\<lparr>gl_vertex_array := a\<rparr>"
| "gl_exec (EnableVertexAttribArray l) g =
     g\<lparr>gl_vao_enabled := (gl_vao_enabled g)(gl_vertex_array g := insert l (gl_vao_enabled g (gl_vertex_array g)))\<rparr>"
| "gl_exec (VertexAttribPointer l n) g =
     g\<lparr>gl_vao_source := (gl_vao_source g)(gl_vertex_array g := Some (gl_array_buffer g))\<rparr>"
| "gl_exec (Uniform4fv l c) g =
     (if l = -1 then g else g\<lparr>gl_uniforms := (gl_uniforms g)(l := [vr c, vg c, vb c, va c])\<rparr>)"
| "gl_exec (Uniform1f l v) g =
     (if l = -1 then g else g\<lparr>gl_uniforms := (gl_uniforms g)(l := [v])\<rparr>)"
| "gl_exec (Uniform2f l v w) g =
     (if l = -1 then g else g\<lparr>gl_uniforms := (gl_uniforms g)(l := [v, w])\<rparr>)"
| "gl_exec (DrawArraysFan first count) g =
     g\<lparr>gl_draws := gl_draws g @ [\<lparr>dc_program = gl_program g, dc_vao = gl_vertex_array g,
        dc_first = first, dc_count = count,
        dc_translation = gl_uniforms g (gl_uniform_location g (gl_program g) ''translation'')\<rparr>]\<rparr>"
| "gl_exec (DeleteBuffer b) g =
     (if b \<in> gl_buffers g
      then g\<lparr>gl_buffers := gl_buffers g - {b}, gl_buffer_data := (gl_buffer_data g)(b := None),
             gl_array_buffer := (if gl_array_buffer g = b then 0 else gl_array_buffer g)\<rparr>
      else g)"
| "gl_exec (DeleteVertexArray a) g =
     (if a \<in> gl_arrays g
      then g\<lparr>gl_arrays := gl_arrays g - {a}, gl_vao_source := (gl_vao_source g)(a := None),
             gl_vertex_array := (if gl_vertex_array g = a then 0 else gl_vertex_array g)\<rparr>
      else g)"

definition gl_run :: "gl_cmd list \<Rightarrow> gl_state \<Rightarrow> gl_state" where
  "gl_run cs g = fold gl_exec cs g"

text \<open>
  A draw call reads vertices \<open>first .. first + count - 1\<close> of the buffer that feeds
  the vertex array's position attribute; it stays inside that buffer when the
  buffer holds at least that many vertices.
\<close>

definition draw_in_bounds :: "gl_state \<Rightarrow> draw_call \<Rightarrow> bool" where
  "draw_in_bounds g d =
     (case gl_vao_source g (dc_vao d) of
        None \<Rightarrow> False
      | Some b \<Rightarrow> (case gl_buffer_data g b of
                    None \<Rightarrow> False
                  | Some vs \<Rightarrow> 0 \<le> dc_count d \<and> int (dc_first d) + dc_count d \<le> int (length vs)))"

declare gl_init_def [eval_simps] glGenBuffers_def [eval_simps] glGenVertexArrays_def [eval_simps]
  gl_run_def [eval_simps]

section \<open>Lemmas on the context\<close>

lemma gl_run_Nil [simp]: "gl_run [] g = g"
  by (simp add: gl_run_def)

lemma gl_run_Cons [simp]: "gl_run (c # cs) g = gl_run cs (gl_exec c g)"
  by (simp add: gl_run_def)

lemma gl_run_append: "gl_run (cs @ ds) g = gl_run ds (gl_run cs g)"
  by (simp add: gl_run_def)

text \<open>Names are allocated below the counter, and the counters only grow.\<close>

definition gl_names_ok :: "gl_state \<Rightarrow> bool" where
  "gl_names_ok g \<longleftrightarrow> (\<forall>b \<in> gl_buffers g. 0 < b \<and> b < gl_next_buffer g)
     \<and> (\<forall>a \<in> gl_arrays g. 0 < a \<and> a < gl_next_array g) \<and> 0 < gl_next_buffer g \<and> 0 < gl_next_array g"

lemma gl_exec_next [simp]:
  "gl_next_buffer (gl_exec c g) = gl_next_buffer g"
  "gl_next_array (gl_exec c g) = gl_next_array g"
  by (cases c; simp)+

lemma gl_exec_sets:
  "gl_buffers (gl_exec c g) \<subseteq> gl_buffers g"
  "gl_arrays (gl_exec c g) \<subseteq> gl_arrays g"
  by (cases c; auto)+

lemma gl_run_next [simp]:
  "gl_next_buffer (gl_run cs g) = gl_next_buffer g"
  "gl_next_array (gl_run cs g) = gl_next_array g"
  by (induction cs arbitrary: g) simp_all

lemma gl_run_sets:
  "gl_buffers (gl_run cs g) \<subseteq> gl_buffers g"
  "gl_arrays (gl_run cs g) \<subseteq> gl_arrays g"
  by (induction cs arbitrary: g) (use gl_exec_sets in fastforce)+

lemma gl_run_names_ok: "gl_names_ok g \<Longrightarrow> gl_names_ok (gl_run cs g)"
  using gl_run_sets [of cs g] by (auto simp: gl_names_ok_def)

lemma glGenBuffers_fresh:
  assumes "gl_names_ok g" and "glGenBuffers g = (b, g')"
  shows "b \<notin> gl_buffers g" and "gl_buffers g' = insert b (gl_buffers g)"
    and "gl_names_ok g'" and "0 < b" and "gl_next_buffer g' = Suc b"
  using assms by (auto simp: glGenBuffers_def gl_names_ok_def less_Suc_eq)

lemma glGenVertexArrays_fresh:
  assumes "gl_names_ok g" and "glGenVertexArrays g = (a, g')"
  shows "a \<notin> gl_arrays g" and "gl_arrays g' = insert a (gl_arrays g)"
    and "gl_names_ok g'" and "0 < a" and "gl_next_array g' = Suc a"
  using assms by (auto simp: glGenVertexArrays_def gl_names_ok_def less_Suc_eq)

lemma gl_init_names_ok: "gl_names_ok (gl_init ul al)"
  by (simp add: gl_init_def gl_names_ok_def)

end
