(* ===== verification/Rng.thy ===== *)
theory Rng
  imports Prelude
begin

text \<open>
  The random source the components draw from: \<open>std::default_random_engine\<close>,
  which in libstdc++ is \<open>minstd_rand0\<close>, the Lehmer generator
  \<open>x' = 16807 x mod (2^31 - 1)\<close> (\<open>min() = 1\<close>, \<open>max() = 2^31 - 2\<close>), and
  \<open>std::uniform_real_distribution<float>(a, b)\<close>, which calls
  \<open>generate_canonical<float, 24>\<close> once (one 31-bit draw covers 24 bits) and
  scales the result. The state is never 0 (\<open>minstd_next_nonzero\<close>), so the
  unsigned subtraction \<open>urng() - min()\<close> never wraps and is \<open>nat\<close> subtraction
  here. The engine's state is a \<open>nat\<close>; each draw returns the
  value and the next state, so the engine is threaded explicitly through the
  callers (spec section 9 asks for exactly that). Library code, not part of the
  repository: modelled from the libstdc++ definitions.
\<close>

definition minstd_m :: nat where
  "minstd_m = 2147483647"

definition minstd_a :: nat where
  "minstd_a = 16807"

text \<open>\<open>seed(s)\<close>: the state is \<open>s mod m\<close>, or 1 when that is 0 (the increment is 0).\<close>

definition minstd_seed :: "nat \<Rightarrow> nat" where
  "minstd_seed s = (if s mod minstd_m = 0 then 1 else s mod minstd_m)"

text \<open>The engine default-constructed (before \<open>initializeGL\<close> reseeds it) has state 1.\<close>

definition minstd_default :: nat where
  "minstd_default = 1"

definition minstd_next :: "nat \<Rightarrow> nat" where
  "minstd_next x = minstd_a * x mod minstd_m"

text \<open>
  \<open>generate_canonical\<close>: \<open>(urng() - min()) / (max() - min() + 1)\<close>, clamped
  below 1 by \<open>nextafter(1, 0) = 1 - 2^-24\<close> for \<open>float\<close>.
\<close>

definition generate_canonical :: "nat \<Rightarrow> real \<times> nat" where
  "generate_canonical x =
     (let x' = minstd_next x;
          ret = real (x' - 1) / real (minstd_m - 1)
      in (if 1 \<le> ret then 1 - 1 / 2 ^ 24 else ret, x'))"

definition uniform_real :: "real \<times> real \<Rightarrow> nat \<Rightarrow> real \<times> nat" where
  "uniform_real p x = (let (u, x') = generate_canonical x in (u * (snd p - fst p) + fst p, x'))"

declare minstd_m_def [eval_simps] minstd_a_def [eval_simps] minstd_seed_def [eval_simps]
  minstd_default_def [eval_simps] minstd_next_def [eval_simps] generate_canonical_def [eval_simps]
  uniform_real_def [eval_simps]

section \<open>The state stays in \<open>[1, m - 1]\<close>\<close>

definition minstd_ok :: "nat \<Rightarrow> bool" where
  "minstd_ok x \<longleftrightarrow> 0 < x \<and> x < minstd_m"

lemma minstd_seed_ok: "minstd_ok (minstd_seed s)"
  by (simp add: minstd_ok_def minstd_seed_def minstd_m_def)

lemma minstd_default_ok: "minstd_ok minstd_default"
  by (simp add: minstd_ok_def minstd_default_def minstd_m_def)

text \<open>
  16807 is invertible modulo \<open>2^31 - 1\<close> (its inverse is 1407677000), so a
  non-zero state never maps to 0.
\<close>

lemma minstd_inverse: "(1407677000 * minstd_a) mod minstd_m = 1"
  by (simp add: minstd_a_def minstd_m_def)

lemma minstd_next_nonzero:
  assumes "minstd_ok x"
  shows "minstd_next x \<noteq> 0"
proof
  assume z: "minstd_next x = 0"
  have "x = x mod minstd_m"
    using assms by (simp add: minstd_ok_def)
  also have "\<dots> = ((1407677000 * minstd_a) mod minstd_m * x) mod minstd_m"
    by (simp add: minstd_inverse)
  also have "\<dots> = (1407677000 * (minstd_a * x mod minstd_m)) mod minstd_m"
    by (simp add: mod_mult_left_eq mod_mult_right_eq mult.assoc)
  also have "\<dots> = 0"
    using z by (simp add: minstd_next_def)
  finally show False
    using assms by (simp add: minstd_ok_def)
qed

lemma minstd_next_ok: "minstd_ok x \<Longrightarrow> minstd_ok (minstd_next x)"
  using minstd_next_nonzero [of x]
  by (simp add: minstd_ok_def minstd_next_def minstd_m_def)

lemma minstd_funpow_ok: "minstd_ok x \<Longrightarrow> minstd_ok ((minstd_next ^^ n) x)"
  by (induction n) (simp_all add: minstd_next_ok)

lemma generate_canonical_state: "snd (generate_canonical x) = minstd_next x"
  by (simp add: generate_canonical_def Let_def)

lemma uniform_real_state [simp]: "snd (uniform_real p x) = minstd_next x"
  by (simp add: uniform_real_def generate_canonical_def Let_def)

text \<open>
  With the state in range, \<open>generate_canonical\<close> never needs its clamp: the
  largest state \<open>m - 1\<close> gives \<open>(m - 2) / (m - 1) < 1\<close>.
\<close>

lemma generate_canonical_unclamped:
  assumes "minstd_ok x"
  shows "fst (generate_canonical x) = real (minstd_next x - 1) / real (minstd_m - 1)"
proof -
  have "minstd_next x < minstd_m"
    by (simp add: minstd_next_def minstd_m_def)
  then have "real (minstd_next x - 1) < real (minstd_m - 1)"
    using minstd_next_nonzero [OF assms] by simp
  then have "real (minstd_next x - 1) / real (minstd_m - 1) < 1"
    by (simp add: minstd_m_def)
  then show ?thesis
    by (simp add: generate_canonical_def Let_def)
qed

lemma uniform_real_bounds:
  assumes "fst p < snd p"
  shows "fst p \<le> fst (uniform_real p x) \<and> fst (uniform_real p x) < snd p"
proof -
  obtain u x' where gc: "generate_canonical x = (u, x')"
    by fastforce
  have "0 \<le> real (minstd_next x - 1) / real (minstd_m - 1)"
    by simp
  then have u: "0 \<le> u" "u < 1"
    using gc by (auto simp: generate_canonical_def Let_def split: if_splits)
  have "u * (snd p - fst p) < 1 * (snd p - fst p)"
    using u(2) assms by (intro mult_strict_right_mono) simp_all
  moreover have "0 \<le> u * (snd p - fst p)"
    using u(1) assms by simp
  ultimately show ?thesis
    using gc by (simp add: uniform_real_def)
qed


text \<open>
  A draw from \<open>[-1, 1)\<close> is exactly 0 only for one next state, \<open>2^30\<close>: the
  midpoint of the canonical range.
\<close>

lemma uniform_real_zero:
  assumes "minstd_ok x" and "fst (uniform_real (-1, 1) x) = 0"
  shows "minstd_next x = 1073741824"
proof -
  have "fst (uniform_real (-1, 1) x) = fst (generate_canonical x) * 2 - 1"
    by (simp add: uniform_real_def case_prod_unfold Let_def)
  then have "fst (generate_canonical x) = 1 / 2"
    using assms(2) by simp
  then have "real (minstd_next x - 1) / 2147483646 = 1 / 2"
    using generate_canonical_unclamped [OF assms(1)] by (simp add: minstd_m_def)
  then have "real (minstd_next x - 1) = 1073741823"
    by (simp add: divide_eq_eq)
  then have "minstd_next x - 1 = 1073741823"
    by linarith
  then show ?thesis
    using minstd_next_nonzero [OF assms(1)] by simp
qed

lemma minstd_next_midpoint: "minstd_next 1073741824 = 1073750227"
  by (simp add: minstd_next_def minstd_a_def minstd_m_def)

end
