(* ===== verification/Asteroid.thy ===== *)
theory Asteroid
  imports GL Rng
begin

text \<open>
  The data of \<open>src/examples/asteroids/asteroids.hpp\<close>: the \<open>Asteroid\<close> struct (one
  actor) and the state of class \<open>Asteroids\<close> (the formation: shader locations, the
  formation size, the zig-zag timer and direction, the actor list, the random
  engine and distribution), and \<open>Asteroids::createAsteroid\<close> of
  \<open>src/examples/asteroids/asteroids.cpp\<close>: three random draws, the 16-vertex ship
  geometry uploaded into a fresh buffer, a fresh vertex array bound to it.
  \<open>GLuint\<close> names are \<open>nat\<close>, \<open>GLint\<close> locations \<open>int\<close>, floats exact reals.
\<close>

record Asteroid =
  m_vao :: nat
  m_vbo :: nat
  m_angularVelocity :: real
  m_color :: vec4
  m_hit :: bool
  m_polygonSides :: int
  m_rotation :: real
  m_scale :: real
  m_translation :: vec2
  m_velocity :: vec2

text \<open>
  \<open>std::list::resize\<close> value-initialises new elements: every field takes its
  default member initialiser (\<open>m_color{1}\<close> is \<open>vec4(1, 1, 1, 1)\<close>).
\<close>

definition Asteroid_default :: Asteroid where
  "Asteroid_default = \<lparr>m_vao = 0, m_vbo = 0, m_angularVelocity = 0,
     m_color = \<lparr>vr = 1, vg = 1, vb = 1, va = 1\<rparr>, m_hit = False, m_polygonSides = 0,
     m_rotation = 0, m_scale = 0, m_translation = vec2_zero, m_velocity = vec2_zero\<rparr>"

record Asteroids =
  m_program :: nat
  m_colorLoc :: int
  m_rotationLoc :: int
  m_translationLoc :: int
  m_scaleLoc :: int
  CONST_QUANTIDADE_NAVES :: int
  CONST_TEMPO_ZIG_ZAG :: real
  tempo_atual_restante :: real
  sentido :: int
  m_asteroids :: "Asteroid list"
  m_randomEngine :: nat
  m_randomDist :: "real \<times> real"

text \<open>The object as constructed, before the first \<open>initializeGL\<close>.\<close>

definition Asteroids_default :: Asteroids where
  "Asteroids_default = \<lparr>m_program = 0, m_colorLoc = 0, m_rotationLoc = 0, m_translationLoc = 0,
     m_scaleLoc = 0, CONST_QUANTIDADE_NAVES = 14, CONST_TEMPO_ZIG_ZAG = 1,
     tempo_atual_restante = 1, sentido = 1, m_asteroids = [],
     m_randomEngine = minstd_default, m_randomDist = (-1, 1)\<rparr>"

text \<open>
  The fan of the ship silhouette: the centre, fourteen outline points, and the
  first outline point again to close the fan.
\<close>

definition ship_positions :: "vec2 list" where
  "ship_positions =
     [\<lparr>vx = 0, vy = 0\<rparr>,
      \<lparr>vx = 0.5, vy = -2\<rparr>, \<lparr>vx = 0.5, vy = -5\<rparr>,
      \<lparr>vx = 3, vy = -0.5\<rparr>, \<lparr>vx = 3, vy = 1.5\<rparr>,
      \<lparr>vx = 1.5, vy = 2.5\<rparr>, \<lparr>vx = 0.5, vy = 2.5\<rparr>,
      \<lparr>vx = 0.5, vy = 2\<rparr>, \<lparr>vx = -0.5, vy = 2\<rparr>,
      \<lparr>vx = -0.5, vy = 2.5\<rparr>, \<lparr>vx = -1.5, vy = 2.5\<rparr>,
      \<lparr>vx = -3, vy = 1.5\<rparr>, \<lparr>vx = -3, vy = -0.5\<rparr>,
      \<lparr>vx = -0.5, vy = -5\<rparr>, \<lparr>vx = -0.5, vy = -2\<rparr>,
      \<lparr>vx = 0.5, vy = -2\<rparr>]"

text \<open>
  The GL calls of \<open>createAsteroid\<close> after each name generation: upload the
  geometry, then record the buffer as the source of the vertex array's
  \<open>inPosition\<close> attribute.
\<close>

definition upload_geometry :: "nat \<Rightarrow> gl_cmd list" where
  "upload_geometry vbo = [BindBuffer vbo, BufferData ship_positions, BindBuffer 0]"

definition bind_attributes :: "nat \<Rightarrow> nat \<Rightarrow> int \<Rightarrow> gl_cmd list" where
  "bind_attributes vao vbo positionAttribute =
     [BindVertexArray vao, BindBuffer vbo, EnableVertexAttribArray positionAttribute,
      VertexAttribPointer positionAttribute 2, BindBuffer 0, BindVertexArray 0]"

definition createAsteroid :: "vec2 \<Rightarrow> Asteroids \<Rightarrow> gl_state \<Rightarrow> Asteroid \<times> Asteroids \<times> gl_state" where
  "createAsteroid translation s g =
     (let (angularVelocity, re1) = uniform_real (m_randomDist s) (m_randomEngine s);
          (dx, re2) = uniform_real (m_randomDist s) re1;
          (dy, re3) = uniform_real (m_randomDist s) re2;
          direction = \<lparr>vx = dx, vy = dy\<rparr>;
          (vbo, g1) = glGenBuffers g;
          g2 = gl_run (upload_geometry vbo) g1;
          positionAttribute = gl_attrib_location g2 (m_program s) ''inPosition'';
          (vao, g3) = glGenVertexArrays g2;
          g4 = gl_run (bind_attributes vao vbo positionAttribute) g3;
          asteroid = \<lparr>m_vao = vao, m_vbo = vbo, m_angularVelocity = angularVelocity,
            m_color = \<lparr>vr = 1, vg = 0.5, vb = 0.5, va = 1\<rparr>, m_hit = False,
            m_polygonSides = 16, m_rotation = 0, m_scale = 0.02,
            m_translation = translation,
            m_velocity = vec2_scale (1 / 7) (glm_normalize direction)\<rparr>
      in (asteroid, s\<lparr>m_randomEngine := re3\<rparr>, g4))"

declare Asteroid_default_def [eval_simps] Asteroids_default_def [eval_simps]
  ship_positions_def [eval_simps] upload_geometry_def [eval_simps]
  bind_attributes_def [eval_simps] createAsteroid_def [eval_simps]


section \<open>Lemmas\<close>

lemma createAsteroid_fields:
  "m_color (fst (createAsteroid t s g)) = \<lparr>vr = 1, vg = 0.5, vb = 0.5, va = 1\<rparr>
   \<and> \<not> m_hit (fst (createAsteroid t s g)) \<and> m_polygonSides (fst (createAsteroid t s g)) = 16
   \<and> m_rotation (fst (createAsteroid t s g)) = 0 \<and> m_scale (fst (createAsteroid t s g)) = 0.02
   \<and> m_translation (fst (createAsteroid t s g)) = t
   \<and> m_angularVelocity (fst (createAsteroid t s g)) = fst (uniform_real (m_randomDist s) (m_randomEngine s))
   \<and> m_velocity (fst (createAsteroid t s g)) =
       vec2_scale (1 / 7) (glm_normalize
         \<lparr>vx = fst (uniform_real (m_randomDist s) (minstd_next (m_randomEngine s))),
          vy = fst (uniform_real (m_randomDist s) (minstd_next (minstd_next (m_randomEngine s))))\<rparr>)"
  by (simp add: createAsteroid_def Let_def case_prod_unfold)

text \<open>Two consecutive draws from \<open>[-1, 1)\<close> are never both 0, so the direction can be normalised.\<close>

lemma direction_nonzero:
  assumes "minstd_ok x"
  shows "\<lparr>vx = fst (uniform_real (-1, 1) x), vy = fst (uniform_real (-1, 1) (minstd_next x))\<rparr> \<noteq> vec2_zero"
proof
  assume z: "\<lparr>vx = fst (uniform_real (-1, 1) x), vy = fst (uniform_real (-1, 1) (minstd_next x))\<rparr> = vec2_zero"
  have x1: "minstd_next x = 1073741824"
    using z uniform_real_zero [OF assms] by (simp add: vec2_zero_def)
  have "minstd_next (minstd_next x) = 1073741824"
    using z uniform_real_zero [OF minstd_next_ok [OF assms]] by (simp add: vec2_zero_def)
  then show False
    using x1 minstd_next_midpoint by simp
qed


section \<open>Properties of actor creation\<close>

text \<open>
  C21: what \<open>createAsteroid\<close> returns. The angular velocity is a draw from the
  distribution's range \<open>[a, b)\<close>; colour, hit flag, polygon sides, rotation,
  scale and translation are the fixed values of the source; and the engine
  advances by exactly three draws.
\<close>

theorem createAsteroid_result:
  assumes "fst (m_randomDist s) < snd (m_randomDist s)"
  shows "fst (m_randomDist s) \<le> m_angularVelocity (fst (createAsteroid t s g))
    \<and> m_angularVelocity (fst (createAsteroid t s g)) < snd (m_randomDist s)
    \<and> m_color (fst (createAsteroid t s g)) = \<lparr>vr = 1, vg = 0.5, vb = 0.5, va = 1\<rparr>
    \<and> \<not> m_hit (fst (createAsteroid t s g)) \<and> m_polygonSides (fst (createAsteroid t s g)) = 16
    \<and> m_rotation (fst (createAsteroid t s g)) = 0 \<and> m_scale (fst (createAsteroid t s g)) = 0.02
    \<and> m_translation (fst (createAsteroid t s g)) = t
    \<and> m_randomEngine (fst (snd (createAsteroid t s g)))
        = minstd_next (minstd_next (minstd_next (m_randomEngine s)))"
proof -
  have "m_randomEngine (fst (snd (createAsteroid t s g)))
      = minstd_next (minstd_next (minstd_next (m_randomEngine s)))"
    by (simp add: createAsteroid_def Let_def case_prod_unfold)
  then show ?thesis
    using createAsteroid_fields [of t s g] uniform_real_bounds [OF assms, of "m_randomEngine s"]
    by simp
qed

theorem createAsteroid_result_witness:
  "-1 \<le> m_angularVelocity (fst (createAsteroid vec2_zero Asteroids_default (gl_init (\<lambda>_ _. 0) (\<lambda>_ _. 0))))
   \<and> m_angularVelocity (fst (createAsteroid vec2_zero Asteroids_default (gl_init (\<lambda>_ _. 0) (\<lambda>_ _. 0)))) < 1
   \<and> m_polygonSides (fst (createAsteroid vec2_zero Asteroids_default (gl_init (\<lambda>_ _. 0) (\<lambda>_ _. 0)))) = 16
   \<and> m_randomEngine (fst (snd (createAsteroid vec2_zero Asteroids_default (gl_init (\<lambda>_ _. 0) (\<lambda>_ _. 0)))))
       = 1622650073"
proof -
  have h: "fst (m_randomDist Asteroids_default) < snd (m_randomDist Asteroids_default)"
    by (simp add: Asteroids_default_def)
  have e: "minstd_next (minstd_next (minstd_next (m_randomEngine Asteroids_default))) = 1622650073"
    by (simp add: Asteroids_default_def minstd_default_def minstd_next_def minstd_a_def minstd_m_def)
  show ?thesis
    using createAsteroid_result [OF h, of vec2_zero "gl_init (\<lambda>_ _. 0) (\<lambda>_ _. 0)"] e
    by (simp add: Asteroids_default_def)
qed

text \<open>
  C22: the velocity has length \<open>1/7\<close>. With the engine in its range and the
  distribution \<open>[-1, 1)\<close> (the default), the two direction draws are never both
  0, so \<open>glm::normalize\<close> is defined and the stored velocity has length exactly
  \<open>1/7\<close>.
\<close>

theorem createAsteroid_velocity_length:
  assumes "minstd_ok (m_randomEngine s)" and "m_randomDist s = (-1, 1)"
  shows "vec2_length (m_velocity (fst (createAsteroid t s g))) = 1 / 7"
proof -
  have "\<lparr>vx = fst (uniform_real (-1, 1) (minstd_next (m_randomEngine s))),
         vy = fst (uniform_real (-1, 1) (minstd_next (minstd_next (m_randomEngine s))))\<rparr> \<noteq> vec2_zero"
    using direction_nonzero [OF minstd_next_ok [OF assms(1)]] .
  then show ?thesis
    using createAsteroid_fields [of t s g] assms(2)
    by (simp add: vec2_length_scale glm_normalize_length)
qed

theorem createAsteroid_velocity_length_witness:
  "vec2_length (m_velocity (fst (createAsteroid vec2_zero Asteroids_default (gl_init (\<lambda>_ _. 0) (\<lambda>_ _. 0)))))
     = 1 / 7"
proof -
  have h: "minstd_ok (m_randomEngine Asteroids_default)" "m_randomDist Asteroids_default = (-1, 1)"
    by (simp_all add: Asteroids_default_def minstd_default_ok)
  show ?thesis
    using createAsteroid_velocity_length [OF h] .
qed

end
