(* ===== verification/Motion.thy ===== *)
theory Motion
  imports Asteroid
begin

text \<open>
  The Motion Integrator: \<open>Asteroids::update(deltaTime)\<close> of
  \<open>src/examples/asteroids/asteroids.cpp\<close>. One frame first runs the zig-zag
  timer shared by the whole formation (decrement, and on reaching 0 flip
  \<open>sentido\<close> and reset to \<open>CONST_TEMPO_ZIG_ZAG\<close>), then moves every actor: down by
  \<open>0.4 * deltaTime\<close>, sideways by \<open>sentido * deltaTime\<close>, rotation reduced by
  \<open>glm::wrapAngle\<close>, and each axis corrected once into \<open>[-1, 1]\<close> by adding or
  subtracting 2. The lemmas show the frame invariant of the formation, the
  period of the zig-zag, the range of the rotation and of the wrap, and where the
  code departs from the spec (closed interval, discarded overshoot, one flip per
  frame).
\<close>

section \<open>Operations\<close>

definition zigzag_timer :: "real \<Rightarrow> Asteroids \<Rightarrow> Asteroids" where
  "zigzag_timer deltaTime s =
     (let r = tempo_atual_restante s - deltaTime
      in if r \<le> 0 then s\<lparr>sentido := sentido s * (-1), tempo_atual_restante := CONST_TEMPO_ZIG_ZAG s\<rparr>
         else s\<lparr>tempo_atual_restante := r\<rparr>)"

text \<open>The two wrap-around tests of one axis, in the code's order.\<close>

definition wrap_coord :: "real \<Rightarrow> real" where
  "wrap_coord v =
     (let v1 = (if v < -1 then v + 2 else v) in if v1 > 1 then v1 - 2 else v1)"

definition update_asteroid :: "int \<Rightarrow> real \<Rightarrow> Asteroid \<Rightarrow> Asteroid" where
  "update_asteroid sentido' deltaTime a =
     (let y1 = vy (m_translation a) - 0.4 * deltaTime;
          x1 = vx (m_translation a) - of_int sentido' * deltaTime;
          rotation = glm_wrapAngle (m_rotation a + m_angularVelocity a * deltaTime)
      in a\<lparr>m_translation := \<lparr>vx = wrap_coord x1, vy = wrap_coord y1\<rparr>, m_rotation := rotation\<rparr>)"

definition asteroids_update :: "real \<Rightarrow> Asteroids \<Rightarrow> Asteroids" where
  "asteroids_update deltaTime s =
     (let s1 = zigzag_timer deltaTime s
      in s1\<lparr>m_asteroids := map (update_asteroid (sentido s1) deltaTime) (m_asteroids s1)\<rparr>)"

declare zigzag_timer_def [eval_simps] wrap_coord_def [eval_simps]
  update_asteroid_def [eval_simps] asteroids_update_def [eval_simps]

section \<open>The formation invariant\<close>

definition in_unit_box :: "vec2 \<Rightarrow> bool" where
  "in_unit_box t \<longleftrightarrow> -1 \<le> vx t \<and> vx t \<le> 1 \<and> -1 \<le> vy t \<and> vy t \<le> 1"

definition actor_ok :: "Asteroid \<Rightarrow> bool" where
  "actor_ok a \<longleftrightarrow> in_unit_box (m_translation a) \<and> 0 \<le> m_rotation a \<and> m_rotation a < 2 * pi"

definition timer_ok :: "Asteroids \<Rightarrow> bool" where
  "timer_ok s \<longleftrightarrow> sentido s \<in> {-1, 1} \<and> 0 < CONST_TEMPO_ZIG_ZAG s
     \<and> 0 < tempo_atual_restante s \<and> tempo_atual_restante s \<le> CONST_TEMPO_ZIG_ZAG s"

definition formation_inv :: "Asteroids \<Rightarrow> bool" where
  "formation_inv s \<longleftrightarrow> timer_ok s \<and> (\<forall>a \<in> set (m_asteroids s). actor_ok a)"

section \<open>Lemmas on the timer\<close>

lemma zigzag_timer_fields [simp]:
  "CONST_TEMPO_ZIG_ZAG (zigzag_timer dt s) = CONST_TEMPO_ZIG_ZAG s"
  "m_asteroids (zigzag_timer dt s) = m_asteroids s"
  "sentido (zigzag_timer dt s) =
     (if tempo_atual_restante s - dt \<le> 0 then - sentido s else sentido s)"
  "tempo_atual_restante (zigzag_timer dt s) =
     (if tempo_atual_restante s - dt \<le> 0 then CONST_TEMPO_ZIG_ZAG s else tempo_atual_restante s - dt)"
  by (simp_all add: zigzag_timer_def Let_def)

lemma asteroids_update_fields [simp]:
  "CONST_TEMPO_ZIG_ZAG (asteroids_update dt s) = CONST_TEMPO_ZIG_ZAG s"
  "sentido (asteroids_update dt s) = sentido (zigzag_timer dt s)"
  "tempo_atual_restante (asteroids_update dt s) = tempo_atual_restante (zigzag_timer dt s)"
  "m_asteroids (asteroids_update dt s) =
     map (update_asteroid (sentido (zigzag_timer dt s)) dt) (m_asteroids s)"
  "CONST_QUANTIDADE_NAVES (asteroids_update dt s) = CONST_QUANTIDADE_NAVES s"
  "m_program (asteroids_update dt s) = m_program s"
  by (simp_all add: asteroids_update_def Let_def zigzag_timer_def)

lemma zigzag_timer_ok:
  assumes "timer_ok s" and "0 \<le> dt"
  shows "timer_ok (zigzag_timer dt s)"
  using assms by (auto simp: timer_ok_def)

section \<open>Lemmas on one actor\<close>

lemma wrap_coord_range:
  assumes "-3 \<le> v" and "v \<le> 3"
  shows "-1 \<le> wrap_coord v \<and> wrap_coord v \<le> 1"
  using assms by (simp add: wrap_coord_def Let_def)

lemma wrap_coord_shift: "wrap_coord v - v \<in> {-2, 0, 2}"
  by (simp add: wrap_coord_def Let_def)

lemma wrap_coord_id: "-1 \<le> v \<Longrightarrow> v \<le> 1 \<Longrightarrow> wrap_coord v = v"
  by (simp add: wrap_coord_def Let_def)

lemma glm_wrapAngle_range: "0 \<le> glm_wrapAngle a \<and> glm_wrapAngle a < 2 * pi"
  using glm_mod_bounds [of "2 * pi" a] by (simp add: glm_wrapAngle_def)

lemma update_asteroid_rotation:
  "m_rotation (update_asteroid sd dt a) = glm_wrapAngle (m_rotation a + m_angularVelocity a * dt)"
  by (simp add: update_asteroid_def Let_def)

lemma update_asteroid_translation:
  "m_translation (update_asteroid sd dt a) =
     \<lparr>vx = wrap_coord (vx (m_translation a) - of_int sd * dt),
      vy = wrap_coord (vy (m_translation a) - 0.4 * dt)\<rparr>"
  by (simp add: update_asteroid_def Let_def)

lemma drift_range:
  fixes v c dt :: real
  assumes "-1 \<le> v" and "v \<le> 1" and "\<bar>c\<bar> \<le> 1" and "\<bar>dt\<bar> \<le> 2"
  shows "-3 \<le> v - c * dt \<and> v - c * dt \<le> 3"
proof -
  have "\<bar>c * dt\<bar> \<le> 1 * 2"
    using mult_mono [OF assms(3,4)] by (simp add: abs_mult)
  then show ?thesis using assms(1,2) by linarith
qed

lemma update_asteroid_ok:
  assumes "actor_ok a" and "sd \<in> {-1, 1}" and "\<bar>dt\<bar> \<le> 2"
  shows "actor_ok (update_asteroid sd dt a)"
proof -
  let ?t = "m_translation a"
  from assms(1) have box: "-1 \<le> vx ?t" "vx ?t \<le> 1" "-1 \<le> vy ?t" "vy ?t \<le> 1"
    by (simp_all add: actor_ok_def in_unit_box_def)
  have "\<bar>real_of_int sd\<bar> \<le> 1"
    using assms(2) by auto
  then have x: "-3 \<le> vx ?t - of_int sd * dt \<and> vx ?t - of_int sd * dt \<le> 3"
    using box assms(3) by (intro drift_range) simp_all
  have y: "-3 \<le> vy ?t - 0.4 * dt \<and> vy ?t - 0.4 * dt \<le> 3"
    using box assms(3) by (intro drift_range) simp_all
  show ?thesis
    using wrap_coord_range [of "vx ?t - of_int sd * dt"] wrap_coord_range [of "vy ?t - 0.4 * dt"] x y
      glm_wrapAngle_range [of "m_rotation a + m_angularVelocity a * dt"]
    by (simp add: actor_ok_def in_unit_box_def update_asteroid_translation update_asteroid_rotation)
qed

section \<open>Properties of one frame\<close>

text \<open>
  C1: the frame invariant. If the formation satisfies its invariant (direction
  \<open>\<plusminus>1\<close>, timer in \<open>(0, CONST_TEMPO_ZIG_ZAG]\<close>, every actor inside
  \<open>[-1, 1]\<^sup>2\<close> with its rotation in \<open>[0, 2\<pi>)\<close>) and the frame time is in
  \<open>[0, 2]\<close>, then it still does after \<open>Asteroids::update\<close>.
\<close>

theorem asteroids_update_inv:
  assumes "formation_inv s" and "0 \<le> dt" and "dt \<le> 2"
  shows "formation_inv (asteroids_update dt s)"
proof -
  have t: "timer_ok (zigzag_timer dt s)"
    using assms by (intro zigzag_timer_ok) (simp_all add: formation_inv_def)
  then have "sentido (zigzag_timer dt s) \<in> {-1, 1}"
    by (simp add: timer_ok_def)
  moreover have "\<bar>dt\<bar> \<le> 2"
    using assms(2,3) by simp
  ultimately have "\<forall>a \<in> set (m_asteroids s). actor_ok (update_asteroid (sentido (zigzag_timer dt s)) dt a)"
    using assms(1) update_asteroid_ok by (simp add: formation_inv_def)
  moreover have "timer_ok (asteroids_update dt s)"
    using t by (simp add: timer_ok_def)
  ultimately show ?thesis
    by (simp add: formation_inv_def)
qed

text \<open>A formation of one default actor at the origin, used by the witnesses below.\<close>

definition one_actor :: Asteroids where
  "one_actor = Asteroids_default\<lparr>m_asteroids := [Asteroid_default]\<rparr>"

lemma one_actor_inv: "formation_inv one_actor"
  by (simp add: one_actor_def formation_inv_def timer_ok_def actor_ok_def in_unit_box_def eval_simps)

theorem asteroids_update_inv_witness:
  "formation_inv one_actor \<and> 0 \<le> (1 / 2 :: real) \<and> (1 / 2 :: real) \<le> 2
   \<and> formation_inv (asteroids_update (1 / 2) one_actor)"
  using asteroids_update_inv [OF one_actor_inv, of "1 / 2"] one_actor_inv by simp

section \<open>The zig-zag period\<close>

lemma zigzag_period_arith:
  fixes T dt :: real
  assumes "0 < dt"
  shows "0 < T - real m * dt \<longleftrightarrow> m < nat \<lceil>T / dt\<rceil>"
proof -
  have "m < nat \<lceil>T / dt\<rceil> \<longleftrightarrow> int m < \<lceil>T / dt\<rceil>"
    by (simp add: zless_nat_eq_int_zless)
  also have "\<dots> \<longleftrightarrow> real m < T / dt"
    by (simp add: less_ceiling_iff)
  also have "\<dots> \<longleftrightarrow> real m * dt < T"
    using assms by (simp add: pos_less_divide_eq)
  finally show ?thesis by linarith
qed

lemma zigzag_frames_pos:
  fixes T dt :: real
  assumes "0 < dt" and "0 < T"
  shows "0 < nat \<lceil>T / dt\<rceil>"
  using zigzag_period_arith [OF assms(1), of T 0] assms(2) by simp

lemma zigzag_within_period:
  assumes "0 < dt" and "tempo_atual_restante s = CONST_TEMPO_ZIG_ZAG s"
    and "i < nat \<lceil>CONST_TEMPO_ZIG_ZAG s / dt\<rceil>"
  shows "sentido ((asteroids_update dt ^^ i) s) = sentido s
    \<and> tempo_atual_restante ((asteroids_update dt ^^ i) s) = CONST_TEMPO_ZIG_ZAG s - real i * dt
    \<and> CONST_TEMPO_ZIG_ZAG ((asteroids_update dt ^^ i) s) = CONST_TEMPO_ZIG_ZAG s"
  using assms(3)
proof (induction i)
  case 0
  then show ?case using assms(2) by simp
next
  case (Suc i)
  then have IH: "sentido ((asteroids_update dt ^^ i) s) = sentido s"
    "tempo_atual_restante ((asteroids_update dt ^^ i) s) = CONST_TEMPO_ZIG_ZAG s - real i * dt"
    "CONST_TEMPO_ZIG_ZAG ((asteroids_update dt ^^ i) s) = CONST_TEMPO_ZIG_ZAG s"
    by simp_all
  have "0 < CONST_TEMPO_ZIG_ZAG s - real (Suc i) * dt"
    using Suc.prems zigzag_period_arith [OF assms(1)] by blast
  then show ?case
    using IH by (simp add: algebra_simps)
qed

lemma zigzag_at_period:
  assumes "0 < dt" and "0 < CONST_TEMPO_ZIG_ZAG s"
    and "tempo_atual_restante s = CONST_TEMPO_ZIG_ZAG s"
  defines "k \<equiv> nat \<lceil>CONST_TEMPO_ZIG_ZAG s / dt\<rceil>"
  shows "sentido ((asteroids_update dt ^^ k) s) = - sentido s
    \<and> tempo_atual_restante ((asteroids_update dt ^^ k) s) = CONST_TEMPO_ZIG_ZAG s
    \<and> CONST_TEMPO_ZIG_ZAG ((asteroids_update dt ^^ k) s) = CONST_TEMPO_ZIG_ZAG s"
proof -
  have "0 < k"
    using zigzag_frames_pos [OF assms(1,2)] by (simp add: k_def)
  then obtain i where k: "k = Suc i"
    using gr0_conv_Suc by blast
  then have prev: "sentido ((asteroids_update dt ^^ i) s) = sentido s"
    "tempo_atual_restante ((asteroids_update dt ^^ i) s) = CONST_TEMPO_ZIG_ZAG s - real i * dt"
    "CONST_TEMPO_ZIG_ZAG ((asteroids_update dt ^^ i) s) = CONST_TEMPO_ZIG_ZAG s"
    using zigzag_within_period [OF assms(1,3), of i] by (simp_all add: k_def)
  have "\<not> Suc i < nat \<lceil>CONST_TEMPO_ZIG_ZAG s / dt\<rceil>"
    using k by (simp add: k_def)
  with zigzag_period_arith [OF assms(1), of "CONST_TEMPO_ZIG_ZAG s" "Suc i"]
  have "\<not> 0 < CONST_TEMPO_ZIG_ZAG s - real (Suc i) * dt"
    by blast
  then show ?thesis
    using prev k by (simp add: algebra_simps)
qed

lemma zigzag_periods:
  assumes "0 < dt" and "0 < CONST_TEMPO_ZIG_ZAG s" and "CONST_TEMPO_ZIG_ZAG s = T"
    and "tempo_atual_restante s = T" and "i < nat \<lceil>T / dt\<rceil>"
  shows "sentido ((asteroids_update dt ^^ (j * nat \<lceil>T / dt\<rceil> + i)) s) = sentido s * (-1) ^ j"
  using assms(2-4)
proof (induction j arbitrary: s)
  case 0
  then show ?case
    using zigzag_within_period [OF assms(1), of s i] assms(5) by simp
next
  case (Suc j)
  let ?k = "nat \<lceil>T / dt\<rceil>"
  let ?s' = "(asteroids_update dt ^^ ?k) s"
  have s': "sentido ?s' = - sentido s" "tempo_atual_restante ?s' = T" "CONST_TEMPO_ZIG_ZAG ?s' = T"
    using zigzag_at_period [OF assms(1), of s] Suc.prems by simp_all
  have "Suc j * ?k + i = (j * ?k + i) + ?k"
    by simp
  then have "(asteroids_update dt ^^ (Suc j * ?k + i)) s = (asteroids_update dt ^^ (j * ?k + i)) ?s'"
    by (simp only: funpow_add comp_apply)
  moreover have "sentido ((asteroids_update dt ^^ (j * ?k + i)) ?s') = sentido ?s' * (-1) ^ j"
    using Suc.IH [of ?s'] s' Suc.prems(1,2) by simp
  ultimately show ?case
    using s'(1) by simp
qed

text \<open>
  C2: the zig-zag period. Started with a full timer, a constant frame time
  \<open>dt > 0\<close> and period \<open>T > 0\<close>, the formation's direction after \<open>n\<close> frames is the
  initial one times \<open>(-1)\<^sup>j\<close> with \<open>j = n div \<lceil>T / dt\<rceil>\<close>: the whole formation
  reverses together, exactly once every \<open>\<lceil>T / dt\<rceil>\<close> frames.
\<close>

theorem zigzag_flip_period:
  assumes "0 < dt" and "0 < CONST_TEMPO_ZIG_ZAG s"
    and "tempo_atual_restante s = CONST_TEMPO_ZIG_ZAG s"
  shows "sentido ((asteroids_update dt ^^ n) s)
           = sentido s * (-1) ^ (n div nat \<lceil>CONST_TEMPO_ZIG_ZAG s / dt\<rceil>)"
proof -
  let ?k = "nat \<lceil>CONST_TEMPO_ZIG_ZAG s / dt\<rceil>"
  have "0 < ?k"
    using zigzag_frames_pos [OF assms(1,2)] .
  then have "n mod ?k < ?k" and n: "n = n div ?k * ?k + n mod ?k"
    by simp_all
  then show ?thesis
    using zigzag_periods [OF assms(1,2) refl assms(3), of "n mod ?k" "n div ?k"] by simp
qed

text \<open>
  The spec's scenario: period 1 s, direction \<open>+1\<close>, two frames of 0.5 s flip the
  direction once; five frames flip it twice.
\<close>

theorem zigzag_flip_period_witness:
  "sentido ((asteroids_update (1 / 2) ^^ 2) Asteroids_default) = -1
   \<and> sentido ((asteroids_update (1 / 2) ^^ 5) Asteroids_default) = 1"
proof -
  have h: "0 < CONST_TEMPO_ZIG_ZAG Asteroids_default"
    "tempo_atual_restante Asteroids_default = CONST_TEMPO_ZIG_ZAG Asteroids_default"
    "sentido Asteroids_default = 1" "CONST_TEMPO_ZIG_ZAG Asteroids_default = 1"
    by (simp_all add: Asteroids_default_def)
  show ?thesis
    using zigzag_flip_period [of "1 / 2" Asteroids_default 2] zigzag_flip_period [of "1 / 2" Asteroids_default 5] h
    by simp
qed

section \<open>Rotation and wrap-around\<close>

text \<open>
  C3: whatever the frame time and the state, after \<open>Asteroids::update\<close> every
  actor's rotation lies in \<open>[0, 2\<pi>)\<close> (the angle wrap of the spec's data model).
\<close>

theorem update_rotation_range:
  assumes "a \<in> set (m_asteroids (asteroids_update dt s))"
  shows "0 \<le> m_rotation a \<and> m_rotation a < 2 * pi"
  using assms glm_wrapAngle_range by (auto simp: update_asteroid_rotation)

theorem update_rotation_range_witness:
  "0 \<le> m_rotation (hd (m_asteroids (asteroids_update 3 one_actor)))
   \<and> m_rotation (hd (m_asteroids (asteroids_update 3 one_actor))) < 2 * pi"
proof -
  have "hd (m_asteroids (asteroids_update 3 one_actor)) \<in> set (m_asteroids (asteroids_update 3 one_actor))"
    by (simp add: one_actor_def)
  then show ?thesis by (rule update_rotation_range)
qed

text \<open>
  C4: the wrap is toroidal, not a clamp. For an actor inside \<open>[-1, 1]\<^sup>2\<close>, a
  direction \<open>\<plusminus>1\<close> and \<open>|dt| \<le> 2\<close>, the new position is inside \<open>[-1, 1]\<^sup>2\<close>
  again and differs from the drifted position \<open>(x - sentido\<cdot>dt, y - 0.4\<cdot>dt)\<close> by
  -2, 0 or 2 on each axis.
\<close>

theorem update_asteroid_wraps:
  assumes "in_unit_box (m_translation a)" and "sd \<in> {-1, 1}" and "\<bar>dt\<bar> \<le> 2"
  shows "in_unit_box (m_translation (update_asteroid sd dt a))
    \<and> vx (m_translation (update_asteroid sd dt a)) - (vx (m_translation a) - of_int sd * dt) \<in> {-2, 0, 2}
    \<and> vy (m_translation (update_asteroid sd dt a)) - (vy (m_translation a) - 0.4 * dt) \<in> {-2, 0, 2}"
proof -
  let ?t = "m_translation a"
  have "\<bar>real_of_int sd\<bar> \<le> 1"
    using assms(2) by auto
  then have x: "-3 \<le> vx ?t - of_int sd * dt \<and> vx ?t - of_int sd * dt \<le> 3"
    using assms(1,3) by (intro drift_range) (simp_all add: in_unit_box_def)
  have y: "-3 \<le> vy ?t - 0.4 * dt \<and> vy ?t - 0.4 * dt \<le> 3"
    using assms(1,3) by (intro drift_range) (simp_all add: in_unit_box_def)
  show ?thesis
    using wrap_coord_range [of "vx ?t - of_int sd * dt"] wrap_coord_range [of "vy ?t - 0.4 * dt"] x y
      wrap_coord_shift [of "vx ?t - of_int sd * dt"] wrap_coord_shift [of "vy ?t - 0.4 * dt"]
    by (simp add: in_unit_box_def update_asteroid_translation)
qed

definition actor_at :: "real \<Rightarrow> real \<Rightarrow> Asteroid" where
  "actor_at x y = Asteroid_default\<lparr>m_translation := \<lparr>vx = x, vy = y\<rparr>\<rparr>"

theorem update_asteroid_wraps_witness:
  "vx (m_translation (update_asteroid 1 (1 / 2) (actor_at (-0.9) 0))) = 0.6
   \<and> in_unit_box (m_translation (update_asteroid 1 (1 / 2) (actor_at (-0.9) 0)))"
proof -
  have h: "in_unit_box (m_translation (actor_at (-0.9) 0))" "(1::int) \<in> {-1, 1}" "\<bar>1 / 2 :: real\<bar> \<le> 2"
    by (simp_all add: actor_at_def in_unit_box_def)
  show ?thesis
    using update_asteroid_wraps [OF h]
    by (simp add: actor_at_def update_asteroid_translation wrap_coord_def)
qed

text \<open>
  C5 (the spec says \<open>[-1, +1)\<close>, the code keeps \<open>[-1, 1]\<close>): no correction
  inside the closed box. Whenever the drifted position
  \<open>(x - sentido\<cdot>dt, y - 0.4\<cdot>dt)\<close> lies in \<open>[-1, 1]\<^sup>2\<close>, edges included, the
  frame moves the actor exactly there: both wrap tests are strict, so an actor
  can end a frame on the edge \<open>x = 1\<close>, which the spec's half-open range excludes.
\<close>

theorem update_asteroid_inside_box:
  assumes "in_unit_box \<lparr>vx = vx (m_translation a) - of_int sd * dt, vy = vy (m_translation a) - 0.4 * dt\<rparr>"
  shows "m_translation (update_asteroid sd dt a)
           = \<lparr>vx = vx (m_translation a) - of_int sd * dt, vy = vy (m_translation a) - 0.4 * dt\<rparr>"
  using assms by (simp add: in_unit_box_def update_asteroid_translation wrap_coord_id)

text \<open>An actor at \<open>x = 0.5\<close> moving right for half a second ends exactly on the edge \<open>x = 1\<close>.\<close>

theorem update_asteroid_inside_box_witness:
  "m_translation (update_asteroid (-1) (1 / 2) (actor_at 0.5 0)) = \<lparr>vx = 1, vy = -0.2\<rparr>"
  using update_asteroid_inside_box [where a = "actor_at 0.5 0" and sd = "-1" and dt = "1 / 2"]
  by (simp add: actor_at_def in_unit_box_def vec2_zero_def)

section \<open>The zig-zag timer against the spec\<close>

text \<open>
  C6 (the spec resets the timer to the period "minus any overshoot"): when a
  frame exhausts the timer, the code flips the direction and sets the timer to
  the full period \<open>CONST_TEMPO_ZIG_ZAG\<close>, whatever the overshoot.
\<close>

theorem zigzag_reset_discards_overshoot:
  assumes "tempo_atual_restante s \<le> dt"
  shows "tempo_atual_restante (asteroids_update dt s) = CONST_TEMPO_ZIG_ZAG s
    \<and> sentido (asteroids_update dt s) = - sentido s"
  using assms by simp

text \<open>
  Two frames of 0.6 s with period 1 s: the second overshoots by 0.2 s, and the
  timer is 1, not 0.8.
\<close>

theorem zigzag_reset_discards_overshoot_witness:
  "tempo_atual_restante (asteroids_update 0.6 (asteroids_update 0.6 Asteroids_default)) = 1
   \<and> sentido (asteroids_update 0.6 (asteroids_update 0.6 Asteroids_default)) = -1"
proof -
  let ?s = "asteroids_update 0.6 Asteroids_default"
  have "tempo_atual_restante ?s = 0.4" "sentido ?s = 1" "CONST_TEMPO_ZIG_ZAG ?s = 1"
    by (simp_all add: Asteroids_default_def)
  then show ?thesis
    using zigzag_reset_discards_overshoot [of ?s "0.6"] by simp
qed

end
