(* ===== verification/Formation.thy ===== *)
theory Formation
  imports Motion
begin

text \<open>
  The Formation Builder: \<open>Asteroids::initializeGL(program)\<close> and
  \<open>Asteroids::terminateGL()\<close> of \<open>src/examples/asteroids/asteroids.cpp\<close>.
  \<open>initializeGL\<close> releases the current actors' GL objects, reseeds the engine from
  the clock (the seed is a parameter here), reads the uniform locations, clears
  the list, resizes it to \<open>CONST_QUANTIDADE_NAVES\<close>, and walks it with an index
  and a running \<open>x\<close>, replacing each element by \<open>createAsteroid()\<close> and placing it
  by the if-chain of rows. The abstract specification is the spec's closed-form
  grid (section 4.1), \<open>formation_slot\<close>; the main lemma is that the loop
  computes it, for every formation size.
\<close>

section \<open>Operations\<close>

text \<open>One turn of the placement if-chain: the new translation (if a branch fires) and the next \<open>x\<close>.\<close>

definition place_step :: "int \<Rightarrow> int \<Rightarrow> real \<Rightarrow> vec2 option \<times> real" where
  "place_step n index x =
     (if 1 \<le> index \<and> index < 6 then (Some \<lparr>vx = x, vy = 0.9\<rparr>, x + 0.4)
      else if 6 \<le> index \<and> index < 10 then
        (let x1 = (if index = 6 then -0.6 else x) in (Some \<lparr>vx = x1, vy = 0.7\<rparr>, x1 + 0.4))
      else if 10 \<le> index \<and> index \<le> n then
        (let x1 = (if index = 10 then -0.8 else x) in (Some \<lparr>vx = x1, vy = 0.5\<rparr>, x1 + 0.4))
      else (None, x))"

text \<open>The range-for over the resized list, with \<open>index\<close> and \<open>x\<close> carried along.\<close>

fun init_loop :: "Asteroid list \<Rightarrow> int \<Rightarrow> real \<Rightarrow> Asteroids \<Rightarrow> gl_state
                    \<Rightarrow> Asteroid list \<times> Asteroids \<times> gl_state" where
  "init_loop [] index x s g = ([], s, g)"
| "init_loop (_ # rest) index x s g =
     (let (asteroid, s1, g1) = createAsteroid vec2_zero s g;
          (t, x1) = place_step (CONST_QUANTIDADE_NAVES s) index x;
          asteroid1 = (case t of Some p \<Rightarrow> asteroid\<lparr>m_translation := p\<rparr> | None \<Rightarrow> asteroid);
          (rest1, s2, g2) = init_loop rest (index + 1) x1 s1 g1
      in (asteroid1 # rest1, s2, g2))"

definition terminate_one :: "Asteroid \<Rightarrow> gl_state \<Rightarrow> gl_state" where
  "terminate_one a g = gl_run [DeleteBuffer (m_vbo a), DeleteVertexArray (m_vao a)] g"

definition asteroids_terminateGL :: "Asteroids \<Rightarrow> gl_state \<Rightarrow> gl_state" where
  "asteroids_terminateGL s g = fold terminate_one (m_asteroids s) g"

definition asteroids_initializeGL :: "nat \<Rightarrow> nat \<Rightarrow> Asteroids \<Rightarrow> gl_state \<Rightarrow> error + Asteroids \<times> gl_state" where
  "asteroids_initializeGL program seed s g =
     (let g1 = asteroids_terminateGL s g;
          s1 = s\<lparr>m_randomEngine := minstd_seed seed, m_program := program,
                 m_colorLoc := gl_uniform_location g1 program ''color'',
                 m_rotationLoc := gl_uniform_location g1 program ''rotation'',
                 m_scaleLoc := gl_uniform_location g1 program ''scale'',
                 m_translationLoc := gl_uniform_location g1 program ''translation'',
                 m_asteroids := []\<rparr>
      in if CONST_QUANTIDADE_NAVES s1 < 0 then Inl Bad_alloc
         else
           (let resized = replicate (nat (CONST_QUANTIDADE_NAVES s1)) Asteroid_default;
                (asteroids, s2, g2) = init_loop resized 1 (-0.8) (s1\<lparr>m_asteroids := resized\<rparr>) g1
            in Inr (s2\<lparr>m_asteroids := asteroids\<rparr>, g2)))"

declare place_step_def [eval_simps] terminate_one_def [eval_simps]
  asteroids_terminateGL_def [eval_simps] asteroids_initializeGL_def [eval_simps]

section \<open>The specified layout\<close>

text \<open>
  Spec section 4.1: actor \<open>i\<close> (from 1) sits in row 1 (\<open>y = 0.9\<close>, \<open>x\<close> from -0.8)
  for \<open>i \<le> 5\<close>, row 2 (\<open>y = 0.7\<close>, \<open>x\<close> from -0.6) for \<open>6 \<le> i \<le> 9\<close>, row 3
  (\<open>y = 0.5\<close>, \<open>x\<close> from -0.8) after that, 0.4 apart.
\<close>

definition formation_slot :: "int \<Rightarrow> vec2" where
  "formation_slot i =
     (if i \<le> 5 then \<lparr>vx = -0.8 + 0.4 * of_int (i - 1), vy = 0.9\<rparr>
      else if i \<le> 9 then \<lparr>vx = -0.6 + 0.4 * of_int (i - 6), vy = 0.7\<rparr>
      else \<lparr>vx = -0.8 + 0.4 * of_int (i - 10), vy = 0.5\<rparr>)"

text \<open>The value of the running \<open>x\<close> when the loop reaches index \<open>i\<close>.\<close>

definition x_before :: "int \<Rightarrow> real" where
  "x_before i =
     (if i \<le> 6 then -0.8 + 0.4 * of_int (i - 1)
      else if i \<le> 10 then -0.6 + 0.4 * of_int (i - 6)
      else -0.8 + 0.4 * of_int (i - 10))"

section \<open>Lemmas on creation and the loop\<close>

lemma createAsteroid_state:
  "fst (snd (createAsteroid t s g)) =
     s\<lparr>m_randomEngine := minstd_next (minstd_next (minstd_next (m_randomEngine s)))\<rparr>"
  by (simp add: createAsteroid_def Let_def case_prod_unfold)

lemma createAsteroid_translation:
  "m_translation (fst (createAsteroid t s g)) = t"
  by (simp add: createAsteroid_def Let_def case_prod_unfold)

lemma place_step_slot:
  assumes "1 \<le> i" and "i \<le> n"
  shows "place_step n i (x_before i) = (Some (formation_slot i), x_before (i + 1))"
  using assms by (auto simp: place_step_def formation_slot_def x_before_def Let_def field_simps)

lemma init_loop_Cons_eq:
  "init_loop (y # ys) i x s g =
     (let r = createAsteroid vec2_zero s g;
          st = place_step (CONST_QUANTIDADE_NAVES s) i x;
          l = init_loop ys (i + 1) (snd st) (fst (snd r)) (snd (snd r))
      in ((case fst st of Some p \<Rightarrow> (fst r)\<lparr>m_translation := p\<rparr> | None \<Rightarrow> fst r) # fst l, snd l))"
  by (simp add: Let_def case_prod_unfold)

declare init_loop.simps(2) [simp del]

text \<open>Placing an actor changes only its translation.\<close>

lemma placed_actor_fields [simp]:
  "m_vbo (case t of None \<Rightarrow> a | Some p \<Rightarrow> a\<lparr>m_translation := p\<rparr>) = m_vbo a"
  "m_vao (case t of None \<Rightarrow> a | Some p \<Rightarrow> a\<lparr>m_translation := p\<rparr>) = m_vao a"
  "m_angularVelocity (case t of None \<Rightarrow> a | Some p \<Rightarrow> a\<lparr>m_translation := p\<rparr>) = m_angularVelocity a"
  "m_velocity (case t of None \<Rightarrow> a | Some p \<Rightarrow> a\<lparr>m_translation := p\<rparr>) = m_velocity a"
  "m_polygonSides (case t of None \<Rightarrow> a | Some p \<Rightarrow> a\<lparr>m_translation := p\<rparr>) = m_polygonSides a"
  "m_rotation (case t of None \<Rightarrow> a | Some p \<Rightarrow> a\<lparr>m_translation := p\<rparr>) = m_rotation a"
  by (cases t; simp)+

lemma init_loop_length [simp]: "length (fst (init_loop xs i x s g)) = length xs"
  by (induction xs arbitrary: i x s g) (simp_all add: init_loop_Cons_eq Let_def)

lemma init_loop_state:
  "fst (snd (init_loop xs i x s g)) =
     s\<lparr>m_randomEngine := (minstd_next ^^ (3 * length xs)) (m_randomEngine s)\<rparr>"
proof (induction xs arbitrary: i x s g)
  case Nil
  then show ?case by simp
next
  case (Cons y ys)
  have "(minstd_next ^^ (3 * length (y # ys))) e
      = (minstd_next ^^ (3 * length ys)) (minstd_next (minstd_next (minstd_next e)))" for e
  proof -
    have "3 * length (y # ys) = 3 * length ys + 3" by simp
    then show ?thesis by (simp only: funpow_add comp_apply) (simp add: numeral_3_eq_3)
  qed
  then show ?case
    using Cons.IH by (simp add: init_loop_Cons_eq Let_def createAsteroid_state)
qed

lemma init_loop_sides:
  "a \<in> set (fst (init_loop xs i x s g)) \<Longrightarrow> m_polygonSides a = 16"
proof (induction xs arbitrary: i x s g)
  case Nil
  then show ?case by simp
next
  case (Cons y ys)
  have "m_polygonSides (fst (createAsteroid vec2_zero s g)) = 16"
    by (simp add: createAsteroid_def Let_def case_prod_unfold)
  then show ?case
    using Cons by (auto simp: init_loop_Cons_eq Let_def)
qed

lemma init_loop_translations:
  assumes "1 \<le> i" and "i + int (length xs) - 1 \<le> CONST_QUANTIDADE_NAVES s"
  shows "map m_translation (fst (init_loop xs i (x_before i) s g))
           = map formation_slot [i..i + int (length xs) - 1]"
  using assms
proof (induction xs arbitrary: i s g)
  case Nil
  then show ?case by simp
next
  case (Cons y ys)
  let ?r = "createAsteroid vec2_zero s g"
  have step: "place_step (CONST_QUANTIDADE_NAVES s) i (x_before i) = (Some (formation_slot i), x_before (i + 1))"
    using Cons.prems by (intro place_step_slot) simp_all
  have n: "CONST_QUANTIDADE_NAVES (fst (snd ?r)) = CONST_QUANTIDADE_NAVES s"
    by (simp add: createAsteroid_state)
  have IH: "map m_translation (fst (init_loop ys (i + 1) (x_before (i + 1)) (fst (snd ?r)) (snd (snd ?r))))
      = map formation_slot [i + 1..i + 1 + int (length ys) - 1]"
    using Cons.prems n by (intro Cons.IH) simp_all
  have "[i..i + int (length (y # ys)) - 1] = i # [i + 1..i + 1 + int (length ys) - 1]"
    using upto_rec1 [of i "i + int (length ys)"] by (simp add: algebra_simps)
  then show ?case
    using step IH by (simp add: init_loop_Cons_eq Let_def)
qed

lemma asteroids_initializeGL_Inr:
  fixes p seed :: nat and s :: Asteroids and g :: gl_state
  assumes "0 \<le> CONST_QUANTIDADE_NAVES s"
  defines "s1 \<equiv> s\<lparr>m_randomEngine := minstd_seed seed, m_program := p,
                 m_colorLoc := gl_uniform_location (asteroids_terminateGL s g) p ''color'',
                 m_rotationLoc := gl_uniform_location (asteroids_terminateGL s g) p ''rotation'',
                 m_scaleLoc := gl_uniform_location (asteroids_terminateGL s g) p ''scale'',
                 m_translationLoc := gl_uniform_location (asteroids_terminateGL s g) p ''translation'',
                 m_asteroids := replicate (nat (CONST_QUANTIDADE_NAVES s)) Asteroid_default\<rparr>"
  defines "r \<equiv> init_loop (replicate (nat (CONST_QUANTIDADE_NAVES s)) Asteroid_default) 1 (-0.8) s1
                 (asteroids_terminateGL s g)"
  shows "asteroids_initializeGL p seed s g = Inr ((fst (snd r))\<lparr>m_asteroids := fst r\<rparr>, snd (snd r))"
  using assms(1) by (simp add: asteroids_initializeGL_def s1_def r_def Let_def case_prod_unfold)

lemma initializeGL_result:
  assumes "0 \<le> CONST_QUANTIDADE_NAVES s"
  obtains s' g' where "asteroids_initializeGL p seed s g = Inr (s', g')"
    and "map m_translation (m_asteroids s') = map formation_slot [1..CONST_QUANTIDADE_NAVES s]"
    and "CONST_QUANTIDADE_NAVES s' = CONST_QUANTIDADE_NAVES s" and "sentido s' = sentido s"
    and "tempo_atual_restante s' = tempo_atual_restante s"
    and "CONST_TEMPO_ZIG_ZAG s' = CONST_TEMPO_ZIG_ZAG s"
    and "m_randomDist s' = m_randomDist s" and "m_program s' = p"
proof -
  let ?n = "CONST_QUANTIDADE_NAVES s"
  let ?xs = "replicate (nat ?n) Asteroid_default"
  let ?g1 = "asteroids_terminateGL s g"
  let ?s1 = "s\<lparr>m_randomEngine := minstd_seed seed, m_program := p,
                 m_colorLoc := gl_uniform_location ?g1 p ''color'',
                 m_rotationLoc := gl_uniform_location ?g1 p ''rotation'',
                 m_scaleLoc := gl_uniform_location ?g1 p ''scale'',
                 m_translationLoc := gl_uniform_location ?g1 p ''translation'',
                 m_asteroids := ?xs\<rparr>"
  let ?r = "init_loop ?xs 1 (-0.8) ?s1 ?g1"
  have eq: "asteroids_initializeGL p seed s g = Inr ((fst (snd ?r))\<lparr>m_asteroids := fst ?r\<rparr>, snd (snd ?r))"
    using asteroids_initializeGL_Inr [OF assms] by simp
  have "x_before 1 = -0.8"
    by (simp add: x_before_def)
  then have "map m_translation (fst ?r) = map formation_slot [1..1 + int (length ?xs) - 1]"
    using init_loop_translations [of 1 ?xs ?s1 ?g1] assms by simp
  then have "map m_translation (fst ?r) = map formation_slot [1..?n]"
    using assms by simp
  then show ?thesis
    using that [OF eq] init_loop_state [of ?xs 1 "-0.8" ?s1 ?g1] by simp
qed

lemma formation_slot_in_box:
  assumes "1 \<le> i" and "i \<le> 14"
  shows "in_unit_box (formation_slot i)"
proof -
  have "1 \<le> real_of_int i" "real_of_int i \<le> 14"
    using assms by simp_all
  moreover have "i \<le> 5 \<Longrightarrow> real_of_int i \<le> 5" "\<not> i \<le> 5 \<Longrightarrow> 6 \<le> real_of_int i"
    "i \<le> 9 \<Longrightarrow> real_of_int i \<le> 9" "\<not> i \<le> 9 \<Longrightarrow> 10 \<le> real_of_int i"
    by simp_all
  ultimately show ?thesis
    by (auto simp: formation_slot_def in_unit_box_def field_simps)
qed

text \<open>Slots 15 and beyond lie right of the box: the third row has no column limit.\<close>

lemma formation_slot_box_iff:
  assumes "1 \<le> i"
  shows "in_unit_box (formation_slot i) \<longleftrightarrow> i \<le> 14"
proof
  assume "i \<le> 14"
  with assms show "in_unit_box (formation_slot i)"
    by (rule formation_slot_in_box)
next
  assume box: "in_unit_box (formation_slot i)"
  show "i \<le> 14"
  proof (rule ccontr)
    assume "\<not> i \<le> 14"
    then have "15 \<le> real_of_int i" "vx (formation_slot i) = -0.8 + 0.4 * (real_of_int i - 10)"
      by (simp_all add: formation_slot_def)
    then have "1 < vx (formation_slot i)"
      by (simp add: field_simps)
    with box show False
      by (simp add: in_unit_box_def)
  qed
qed

lemma initializeGL_Inr_state:
  assumes "0 \<le> CONST_QUANTIDADE_NAVES s"
  obtains s' g' where "asteroids_initializeGL p seed s g = Inr (s', g')"
    and "m_randomEngine s' = (minstd_next ^^ (3 * nat (CONST_QUANTIDADE_NAVES s))) (minstd_seed seed)"
  using that asteroids_initializeGL_Inr [OF assms, of p seed g] init_loop_state by simp

text \<open>The built actor list is one run of the placement loop from a state whose engine is in range.\<close>

lemma initializeGL_loop:
  assumes "0 \<le> CONST_QUANTIDADE_NAVES s"
  obtains s' g' s1 g1 where "asteroids_initializeGL p seed s g = Inr (s', g')"
    and "m_asteroids s' = fst (init_loop (replicate (nat (CONST_QUANTIDADE_NAVES s)) Asteroid_default) 1 (-0.8) s1 g1)"
    and "minstd_ok (m_randomEngine s1)" and "m_randomDist s1 = m_randomDist s"
proof -
  let ?g1 = "asteroids_terminateGL s g"
  let ?xs = "replicate (nat (CONST_QUANTIDADE_NAVES s)) Asteroid_default"
  let ?s1 = "s\<lparr>m_randomEngine := minstd_seed seed, m_program := p,
                 m_colorLoc := gl_uniform_location ?g1 p ''color'',
                 m_rotationLoc := gl_uniform_location ?g1 p ''rotation'',
                 m_scaleLoc := gl_uniform_location ?g1 p ''scale'',
                 m_translationLoc := gl_uniform_location ?g1 p ''translation'',
                 m_asteroids := ?xs\<rparr>"
  let ?r = "init_loop ?xs 1 (-0.8) ?s1 ?g1"
  have "asteroids_initializeGL p seed s g = Inr ((fst (snd ?r))\<lparr>m_asteroids := fst ?r\<rparr>, snd (snd ?r))"
    using asteroids_initializeGL_Inr [OF assms, of p seed g] by simp
  then show ?thesis
    by (rule that [of _ _ ?s1 ?g1]) (simp_all add: minstd_seed_ok)
qed

text \<open>
  Every actor the loop builds from an engine in range and the distribution
  \<open>[-1, 1)\<close> has its angular velocity in \<open>[-1, 1)\<close>, speed \<open>1/7\<close> and rotation 0.
\<close>

lemma init_loop_actors:
  assumes "minstd_ok (m_randomEngine s)" and "m_randomDist s = (-1, 1)"
  shows "\<forall>a \<in> set (fst (init_loop xs i x s g)). -1 \<le> m_angularVelocity a \<and> m_angularVelocity a < 1
    \<and> vec2_length (m_velocity a) = 1 / 7 \<and> m_rotation a = 0"
  using assms
proof (induction xs arbitrary: i x s g)
  case Nil
  then show ?case by simp
next
  case (Cons y ys)
  let ?c = "createAsteroid vec2_zero s g"
  let ?e = "m_randomEngine s"
  have d: "\<lparr>vx = fst (uniform_real (-1, 1) (minstd_next ?e)),
            vy = fst (uniform_real (-1, 1) (minstd_next (minstd_next ?e)))\<rparr> \<noteq> vec2_zero"
    using direction_nonzero [OF minstd_next_ok [OF Cons.prems(1)]] .
  have b: "-1 \<le> fst (uniform_real (-1, 1) ?e) \<and> fst (uniform_real (-1, 1) ?e) < (1::real)"
    using uniform_real_bounds [of "(-1, 1)" ?e] by simp
  have hd: "-1 \<le> m_angularVelocity (fst ?c) \<and> m_angularVelocity (fst ?c) < 1
      \<and> vec2_length (m_velocity (fst ?c)) = 1 / 7 \<and> m_rotation (fst ?c) = 0"
    using createAsteroid_fields [of vec2_zero s g] Cons.prems(2) d b
    by (simp add: vec2_length_scale glm_normalize_length)
  have "minstd_ok (m_randomEngine (fst (snd ?c)))" "m_randomDist (fst (snd ?c)) = (-1, 1)"
    using Cons.prems(1,2) by (simp_all add: createAsteroid_state minstd_next_ok)
  note IH = Cons.IH [OF this]
  show ?case
    using hd IH by (simp add: init_loop_Cons_eq Let_def)
qed

section \<open>Properties of initialisation\<close>

text \<open>
  C9: refinement of the spec's layout. For every non-negative formation size
  \<open>n\<close>, \<open>initializeGL\<close> returns, and the actors' translations, in list order, are
  the spec's grid slots \<open>1 .. n\<close>: the index-driven loop with its running \<open>x\<close>
  computes the closed-form layout.
\<close>

theorem initializeGL_layout:
  assumes "0 \<le> CONST_QUANTIDADE_NAVES s"
  shows "\<exists>s' g'. asteroids_initializeGL p seed s g = Inr (s', g')
           \<and> map m_translation (m_asteroids s') = map formation_slot [1..CONST_QUANTIDADE_NAVES s]"
  using assms by (elim initializeGL_result) blast

text \<open>The spec's end-to-end scenario: \<open>build(14)\<close> and the fourteen positions.\<close>

theorem initializeGL_layout_witness:
  "\<exists>s' g'. asteroids_initializeGL 1 42 Asteroids_default (gl_init (\<lambda>_ _. 0) (\<lambda>_ _. 0)) = Inr (s', g')
     \<and> map m_translation (m_asteroids s') =
       [\<lparr>vx = -0.8, vy = 0.9\<rparr>, \<lparr>vx = -0.4, vy = 0.9\<rparr>, \<lparr>vx = 0, vy = 0.9\<rparr>,
        \<lparr>vx = 0.4, vy = 0.9\<rparr>, \<lparr>vx = 0.8, vy = 0.9\<rparr>,
        \<lparr>vx = -0.6, vy = 0.7\<rparr>, \<lparr>vx = -0.2, vy = 0.7\<rparr>, \<lparr>vx = 0.2, vy = 0.7\<rparr>, \<lparr>vx = 0.6, vy = 0.7\<rparr>,
        \<lparr>vx = -0.8, vy = 0.5\<rparr>, \<lparr>vx = -0.4, vy = 0.5\<rparr>, \<lparr>vx = 0, vy = 0.5\<rparr>,
        \<lparr>vx = 0.4, vy = 0.5\<rparr>, \<lparr>vx = 0.8, vy = 0.5\<rparr>]"
proof -
  have h: "0 \<le> CONST_QUANTIDADE_NAVES Asteroids_default"
    by (simp add: Asteroids_default_def)
  have "map formation_slot [1..CONST_QUANTIDADE_NAVES Asteroids_default] =
       [\<lparr>vx = -0.8, vy = 0.9\<rparr>, \<lparr>vx = -0.4, vy = 0.9\<rparr>, \<lparr>vx = 0, vy = 0.9\<rparr>,
        \<lparr>vx = 0.4, vy = 0.9\<rparr>, \<lparr>vx = 0.8, vy = 0.9\<rparr>,
        \<lparr>vx = -0.6, vy = 0.7\<rparr>, \<lparr>vx = -0.2, vy = 0.7\<rparr>, \<lparr>vx = 0.2, vy = 0.7\<rparr>, \<lparr>vx = 0.6, vy = 0.7\<rparr>,
        \<lparr>vx = -0.8, vy = 0.5\<rparr>, \<lparr>vx = -0.4, vy = 0.5\<rparr>, \<lparr>vx = 0, vy = 0.5\<rparr>,
        \<lparr>vx = 0.4, vy = 0.5\<rparr>, \<lparr>vx = 0.8, vy = 0.5\<rparr>]"
    by (simp add: Asteroids_default_def formation_slot_def upto.simps)
  then show ?thesis
    using initializeGL_layout [OF h, of 1 42 "gl_init (\<lambda>_ _. 0) (\<lambda>_ _. 0)"] by simp
qed

text \<open>
  C8: \<open>initializeGL\<close> reseeds the engine and then draws exactly three numbers
  per actor: whatever the engine held before, afterwards it is the seeded state
  advanced by \<open>3 N\<close> steps, and it is still in the generator's range
  \<open>[1, 2^31 - 2]\<close>.
\<close>

theorem initializeGL_reseeds:
  assumes "0 \<le> CONST_QUANTIDADE_NAVES s"
  shows "\<exists>s' g'. asteroids_initializeGL p seed s g = Inr (s', g')
    \<and> m_randomEngine s' = (minstd_next ^^ (3 * nat (CONST_QUANTIDADE_NAVES s))) (minstd_seed seed)
    \<and> minstd_ok (m_randomEngine s')"
proof -
  obtain s' g' where r: "asteroids_initializeGL p seed s g = Inr (s', g')"
    and e: "m_randomEngine s' = (minstd_next ^^ (3 * nat (CONST_QUANTIDADE_NAVES s))) (minstd_seed seed)"
    by (rule initializeGL_Inr_state [OF assms, of p seed g]) blast+
  have "minstd_ok (m_randomEngine s')"
    unfolding e by (rule minstd_funpow_ok [OF minstd_seed_ok])
  with r e show ?thesis
    by blast
qed

theorem initializeGL_reseeds_witness:
  "\<exists>s' g'. asteroids_initializeGL 1 42 Asteroids_default (gl_init (\<lambda>_ _. 0) (\<lambda>_ _. 0)) = Inr (s', g')
    \<and> m_randomEngine s' = (minstd_next ^^ 42) 42 \<and> minstd_ok (m_randomEngine s')"
proof -
  have h: "0 \<le> CONST_QUANTIDADE_NAVES Asteroids_default"
    by (simp add: Asteroids_default_def)
  have "3 * nat (CONST_QUANTIDADE_NAVES Asteroids_default) = 42" "minstd_seed 42 = 42"
    by (simp_all add: Asteroids_default_def minstd_seed_def minstd_m_def)
  then show ?thesis
    using initializeGL_reseeds [OF h, of 1 42 "gl_init (\<lambda>_ _. 0) (\<lambda>_ _. 0)"] by simp
qed

text \<open>
  C10: every built actor moves as the spec's \<open>createActor\<close> says. For every
  formation size and seed, with the distribution \<open>[-1, 1)\<close>, each actor of the
  new formation has its angular velocity in \<open>[-1, 1)\<close>, a velocity of length
  exactly \<open>1/7\<close> (the seeded engine never yields a zero direction) and rotation 0.
\<close>

theorem initializeGL_actors_speed:
  assumes "0 \<le> CONST_QUANTIDADE_NAVES s" and "m_randomDist s = (-1, 1)"
  shows "\<exists>s' g'. asteroids_initializeGL p seed s g = Inr (s', g')
    \<and> (\<forall>a \<in> set (m_asteroids s'). -1 \<le> m_angularVelocity a \<and> m_angularVelocity a < 1
         \<and> vec2_length (m_velocity a) = 1 / 7 \<and> m_rotation a = 0)"
proof -
  obtain s' g' s1 g1 where r: "asteroids_initializeGL p seed s g = Inr (s', g')"
    and l: "m_asteroids s' = fst (init_loop (replicate (nat (CONST_QUANTIDADE_NAVES s)) Asteroid_default) 1 (-0.8) s1 g1)"
    and e: "minstd_ok (m_randomEngine s1)" and d: "m_randomDist s1 = m_randomDist s"
    by (rule initializeGL_loop [OF assms(1), of p seed g])
  have "\<forall>a \<in> set (m_asteroids s'). -1 \<le> m_angularVelocity a \<and> m_angularVelocity a < 1
         \<and> vec2_length (m_velocity a) = 1 / 7 \<and> m_rotation a = 0"
    unfolding l using e by (rule init_loop_actors) (simp add: d assms(2))
  with r show ?thesis
    by blast
qed

theorem initializeGL_actors_speed_witness:
  "\<exists>s' g'. asteroids_initializeGL 1 42 Asteroids_default (gl_init (\<lambda>_ _. 0) (\<lambda>_ _. 0)) = Inr (s', g')
    \<and> (\<forall>a \<in> set (m_asteroids s'). vec2_length (m_velocity a) = 1 / 7)"
proof -
  have h: "0 \<le> CONST_QUANTIDADE_NAVES Asteroids_default" "m_randomDist Asteroids_default = (-1, 1)"
    by (simp_all add: Asteroids_default_def)
  show ?thesis
    using initializeGL_actors_speed [OF h, of 1 42 "gl_init (\<lambda>_ _. 0) (\<lambda>_ _. 0)"] by blast
qed



text \<open>
  C12 (spec gap: the spec bounds the default configuration by \<open>n \<le> 14\<close> but the
  code's third branch has no upper column limit): for every formation size,
  the \<open>k\<close>-th actor (counting from 0) starts inside \<open>[-1, 1]\<^sup>2\<close> exactly when
  \<open>k < 14\<close>; from the fifteenth on, actors are placed at \<open>x = 1.2, 1.6, \<dots>\<close>.
\<close>

theorem initializeGL_box_iff:
  assumes "0 \<le> CONST_QUANTIDADE_NAVES s"
  shows "\<exists>s' g'. asteroids_initializeGL p seed s g = Inr (s', g')
    \<and> length (m_asteroids s') = nat (CONST_QUANTIDADE_NAVES s)
    \<and> (\<forall>k < length (m_asteroids s'). in_unit_box (m_translation (m_asteroids s' ! k)) \<longleftrightarrow> k < 14)"
proof -
  obtain s' g' where r: "asteroids_initializeGL p seed s g = Inr (s', g')"
    and t: "map m_translation (m_asteroids s') = map formation_slot [1..CONST_QUANTIDADE_NAVES s]"
    using initializeGL_result [OF assms] by blast
  have len: "length (m_asteroids s') = nat (CONST_QUANTIDADE_NAVES s)"
    using arg_cong [OF t, of length] by simp
  have "in_unit_box (m_translation (m_asteroids s' ! k)) \<longleftrightarrow> k < 14"
    if k: "k < length (m_asteroids s')" for k
  proof -
    have "m_translation (m_asteroids s' ! k) = map m_translation (m_asteroids s') ! k"
      using k by simp
    also have "\<dots> = formation_slot (1 + int k)"
      using t k len by (simp add: nth_upto)
    finally show ?thesis
      using formation_slot_box_iff [of "1 + int k"] by (simp, presburger)
  qed
  with r len show ?thesis
    by blast
qed

theorem initializeGL_box_iff_witness:
  "\<exists>s' g'. asteroids_initializeGL 1 42 (Asteroids_default\<lparr>CONST_QUANTIDADE_NAVES := 15\<rparr>)
       (gl_init (\<lambda>_ _. 0) (\<lambda>_ _. 0)) = Inr (s', g')
     \<and> length (m_asteroids s') = 15
     \<and> in_unit_box (m_translation (m_asteroids s' ! 13))
     \<and> \<not> in_unit_box (m_translation (m_asteroids s' ! 14))"
proof -
  have h: "0 \<le> CONST_QUANTIDADE_NAVES (Asteroids_default\<lparr>CONST_QUANTIDADE_NAVES := 15\<rparr>)"
    by simp
  obtain s' g' where r: "asteroids_initializeGL 1 42 (Asteroids_default\<lparr>CONST_QUANTIDADE_NAVES := 15\<rparr>)
       (gl_init (\<lambda>_ _. 0) (\<lambda>_ _. 0)) = Inr (s', g')"
    and len: "length (m_asteroids s') = 15"
    and b: "\<forall>k < length (m_asteroids s'). in_unit_box (m_translation (m_asteroids s' ! k)) \<longleftrightarrow> k < 14"
    using initializeGL_box_iff [OF h, of 1 42 "gl_init (\<lambda>_ _. 0) (\<lambda>_ _. 0)"] by auto
  then show ?thesis
    using b len by auto
qed

text \<open>
  C13 (spec gap: the spec says the formation state is "(re)created at
  initialization"): \<open>initializeGL\<close> rebuilds the actors but keeps the zig-zag
  direction, the timer and the period of the previous run.
\<close>

theorem initializeGL_keeps_timer:
  assumes "0 \<le> CONST_QUANTIDADE_NAVES s"
  shows "\<exists>s' g'. asteroids_initializeGL p seed s g = Inr (s', g')
           \<and> sentido s' = sentido s \<and> tempo_atual_restante s' = tempo_atual_restante s
           \<and> CONST_TEMPO_ZIG_ZAG s' = CONST_TEMPO_ZIG_ZAG s"
  using assms by (elim initializeGL_result) blast

text \<open>After a frame that flipped the direction, a restart keeps \<open>sentido = -1\<close>.\<close>

theorem initializeGL_keeps_timer_witness:
  "\<exists>s' g'. asteroids_initializeGL 1 42 (asteroids_update 1 Asteroids_default)
       (gl_init (\<lambda>_ _. 0) (\<lambda>_ _. 0)) = Inr (s', g')
     \<and> sentido s' = -1 \<and> tempo_atual_restante s' = 1 \<and> CONST_TEMPO_ZIG_ZAG s' = 1"
proof -
  have h: "0 \<le> CONST_QUANTIDADE_NAVES (asteroids_update 1 Asteroids_default)"
    "sentido (asteroids_update 1 Asteroids_default) = -1"
    "tempo_atual_restante (asteroids_update 1 Asteroids_default) = 1"
    "CONST_TEMPO_ZIG_ZAG (asteroids_update 1 Asteroids_default) = 1"
    by (simp_all add: Asteroids_default_def)
  show ?thesis
    using initializeGL_keeps_timer [OF h(1), of 1 42 "gl_init (\<lambda>_ _. 0) (\<lambda>_ _. 0)"] h(2-4)
    by simp
qed

end
