(* ===== verification/Resources.thy ===== *)
theory Resources
  imports Formation
begin

text \<open>
  GL resource accounting of the formation (spec sections 3 and 4.1: "rebuild =
  full teardown then full recreate", at most \<open>N\<close> live geometry allocations).
  \<open>createAsteroid\<close> allocates one buffer and one vertex array and links them;
  \<open>terminateGL\<close> deletes exactly the names the actor list holds;
  \<open>initializeGL\<close> therefore replaces the old names by \<open>N\<close> fresh, distinct ones.
  The lemmas compute the GL state after each operation; the claims are the
  replacement property and the dangling handles \<open>terminateGL\<close> leaves behind.
\<close>

section \<open>One actor\<close>

lemma createAsteroid_gl:
  fixes g :: gl_state and s :: Asteroids
  assumes "0 < gl_next_buffer g"
  defines "b \<equiv> gl_next_buffer g" and "v \<equiv> gl_next_array g"
    and "l \<equiv> gl_attrib_location g (m_program s) ''inPosition''"
  shows "m_vbo (fst (createAsteroid t s g)) = b"
    and "m_vao (fst (createAsteroid t s g)) = v"
    and "snd (snd (createAsteroid t s g)) =
      g\<lparr>gl_buffers := insert b (gl_buffers g), gl_arrays := insert v (gl_arrays g),
        gl_next_buffer := Suc b, gl_next_array := Suc v,
        gl_array_buffer := 0, gl_vertex_array := 0,
        gl_buffer_data := (gl_buffer_data g)(b \<mapsto> ship_positions),
        gl_vao_source := (gl_vao_source g)(v \<mapsto> b),
        gl_vao_enabled := (gl_vao_enabled g)(v := insert l (gl_vao_enabled g v))\<rparr>"
  using assms
  by (simp_all add: createAsteroid_def Let_def case_prod_unfold glGenBuffers_def
      glGenVertexArrays_def upload_geometry_def bind_attributes_def)

text \<open>The fields of the context that name generation and the calls never change.\<close>

lemma gl_exec_locations [simp]:
  "gl_uniform_location (gl_exec c g) = gl_uniform_location g"
  "gl_attrib_location (gl_exec c g) = gl_attrib_location g"
  by (cases c; simp)+

lemma gl_run_locations [simp]:
  "gl_uniform_location (gl_run cs g) = gl_uniform_location g"
  "gl_attrib_location (gl_run cs g) = gl_attrib_location g"
  by (induction cs arbitrary: g) simp_all

section \<open>The placement loop\<close>

lemma interval_Suc_split: "{a..<Suc (a + n)} = insert a {Suc a..<Suc (a + n)}"
  by auto

lemma upt_Suc_split: "[a..<Suc (a + n)] = a # [Suc a..<Suc (a + n)]"
  by (simp add: upt_conv_Cons)

text \<open>
  Over a list of \<open>n\<close> elements the loop allocates the next \<open>n\<close> buffer and
  vertex-array names, in order.
\<close>

lemma init_loop_names:
  assumes "0 < gl_next_buffer g"
  shows "map m_vbo (fst (init_loop xs i x s g)) = [gl_next_buffer g..<gl_next_buffer g + length xs]
    \<and> map m_vao (fst (init_loop xs i x s g)) = [gl_next_array g..<gl_next_array g + length xs]
    \<and> gl_buffers (snd (snd (init_loop xs i x s g))) = gl_buffers g \<union> {gl_next_buffer g..<gl_next_buffer g + length xs}
    \<and> gl_arrays (snd (snd (init_loop xs i x s g))) = gl_arrays g \<union> {gl_next_array g..<gl_next_array g + length xs}
    \<and> gl_next_buffer (snd (snd (init_loop xs i x s g))) = gl_next_buffer g + length xs
    \<and> gl_next_array (snd (snd (init_loop xs i x s g))) = gl_next_array g + length xs
    \<and> gl_uniform_location (snd (snd (init_loop xs i x s g))) = gl_uniform_location g"
  using assms
proof (induction xs arbitrary: i x s g)
  case Nil
  then show ?case by simp
next
  case (Cons y ys)
  let ?c = "createAsteroid vec2_zero s g"
  have "0 < gl_next_buffer (snd (snd ?c))"
    using createAsteroid_gl(3) [OF Cons.prems] by simp
  with Cons.IH [of "snd (snd ?c)"] show ?case
    using createAsteroid_gl [OF Cons.prems, of vec2_zero s]
    by (simp add: init_loop_Cons_eq Let_def upt_Suc_split interval_Suc_split del: upt_Suc)
qed

text \<open>Earlier names keep their contents and links: the loop touches only the names it allocates.\<close>

lemma init_loop_frame:
  assumes "0 < gl_next_buffer g" and "b < gl_next_buffer g" and "v < gl_next_array g"
  shows "gl_buffer_data (snd (snd (init_loop xs i x s g))) b = gl_buffer_data g b
    \<and> gl_vao_source (snd (snd (init_loop xs i x s g))) v = gl_vao_source g v"
  using assms
proof (induction xs arbitrary: i x s g)
  case Nil
  then show ?case by simp
next
  case (Cons y ys)
  let ?c = "createAsteroid vec2_zero s g"
  have "0 < gl_next_buffer (snd (snd ?c))" "b < gl_next_buffer (snd (snd ?c))"
    "v < gl_next_array (snd (snd ?c))"
    using createAsteroid_gl(3) [OF Cons.prems(1)] Cons.prems by simp_all
  with Cons.IH [of "snd (snd ?c)"] show ?case
    using createAsteroid_gl(3) [OF Cons.prems(1), of vec2_zero s] Cons.prems
    by (simp add: init_loop_Cons_eq Let_def)
qed

text \<open>Each allocated vertex array reads its position attribute from its own buffer, which holds the ship.\<close>

lemma init_loop_links:
  assumes "0 < gl_next_buffer g" and "k < length xs"
  shows "gl_buffer_data (snd (snd (init_loop xs i x s g))) (gl_next_buffer g + k) = Some ship_positions
    \<and> gl_vao_source (snd (snd (init_loop xs i x s g))) (gl_next_array g + k) = Some (gl_next_buffer g + k)"
  using assms
proof (induction xs arbitrary: i x s g k)
  case Nil
  then show ?case by simp
next
  case (Cons y ys)
  let ?c = "createAsteroid vec2_zero s g"
  let ?st = "place_step (CONST_QUANTIDADE_NAVES s) i x"
  let ?g' = "snd (snd (init_loop ys (i + 1) (snd ?st) (fst (snd ?c)) (snd (snd ?c))))"
  have g1: "gl_next_buffer (snd (snd ?c)) = Suc (gl_next_buffer g)"
    "gl_next_array (snd (snd ?c)) = Suc (gl_next_array g)"
    "gl_buffer_data (snd (snd ?c)) (gl_next_buffer g) = Some ship_positions"
    "gl_vao_source (snd (snd ?c)) (gl_next_array g) = Some (gl_next_buffer g)"
    using createAsteroid_gl(3) [OF Cons.prems(1), of vec2_zero s] by simp_all
  show ?case
  proof (cases k)
    case 0
    have "gl_buffer_data ?g' (gl_next_buffer g) = gl_buffer_data (snd (snd ?c)) (gl_next_buffer g)
        \<and> gl_vao_source ?g' (gl_next_array g) = gl_vao_source (snd (snd ?c)) (gl_next_array g)"
      using g1 by (intro init_loop_frame) simp_all
    then show ?thesis
      using 0 g1 by (simp add: init_loop_Cons_eq Let_def)
  next
    case (Suc k')
    then have "k' < length ys"
      using Cons.prems(2) by simp
    with Cons.IH [of "snd (snd ?c)" k'] g1 show ?thesis
      using Suc by (simp add: init_loop_Cons_eq Let_def)
  qed
qed

section \<open>Teardown\<close>

lemma terminate_one_gl:
  "gl_buffers (terminate_one a g) = gl_buffers g - {m_vbo a}
   \<and> gl_arrays (terminate_one a g) = gl_arrays g - {m_vao a}
   \<and> gl_next_buffer (terminate_one a g) = gl_next_buffer g
   \<and> gl_next_array (terminate_one a g) = gl_next_array g
   \<and> gl_uniform_location (terminate_one a g) = gl_uniform_location g"
  by (auto simp: terminate_one_def)

lemma fold_terminate_gl:
  "gl_buffers (fold terminate_one xs g) = gl_buffers g - set (map m_vbo xs)
   \<and> gl_arrays (fold terminate_one xs g) = gl_arrays g - set (map m_vao xs)
   \<and> gl_next_buffer (fold terminate_one xs g) = gl_next_buffer g
   \<and> gl_next_array (fold terminate_one xs g) = gl_next_array g
   \<and> gl_uniform_location (fold terminate_one xs g) = gl_uniform_location g"
  by (induction xs arbitrary: g) (auto simp: terminate_one_gl)

lemma terminateGL_names_ok: "gl_names_ok g \<Longrightarrow> gl_names_ok (asteroids_terminateGL s g)"
  using fold_terminate_gl [of "m_asteroids s" g]
  by (auto simp: asteroids_terminateGL_def gl_names_ok_def)

section \<open>Resource properties\<close>

lemma initializeGL_gl:
  assumes "0 \<le> CONST_QUANTIDADE_NAVES s" and "gl_names_ok g"
  obtains s' g' where "asteroids_initializeGL p seed s g = Inr (s', g')"
    and "map m_vbo (m_asteroids s') = [gl_next_buffer g..<gl_next_buffer g + nat (CONST_QUANTIDADE_NAVES s)]"
    and "map m_vao (m_asteroids s') = [gl_next_array g..<gl_next_array g + nat (CONST_QUANTIDADE_NAVES s)]"
    and "gl_buffers g' = (gl_buffers g - set (map m_vbo (m_asteroids s)))
                          \<union> {gl_next_buffer g..<gl_next_buffer g + nat (CONST_QUANTIDADE_NAVES s)}"
    and "gl_arrays g' = (gl_arrays g - set (map m_vao (m_asteroids s)))
                          \<union> {gl_next_array g..<gl_next_array g + nat (CONST_QUANTIDADE_NAVES s)}"
    and "gl_names_ok g'"
proof -
  let ?g1 = "asteroids_terminateGL s g"
  let ?xs = "replicate (nat (CONST_QUANTIDADE_NAVES s)) Asteroid_default"
  let ?s1 = "s\<lparr>m_randomEngine := minstd_seed seed, m_program := p,
                 m_colorLoc := gl_uniform_location ?g1 p ''color'',
                 m_rotationLoc := gl_uniform_location ?g1 p ''rotation'',
                 m_scaleLoc := gl_uniform_location ?g1 p ''scale'',
                 m_translationLoc := gl_uniform_location ?g1 p ''translation'',
                 m_asteroids := ?xs\<rparr>"
  let ?r = "init_loop ?xs 1 (-0.8) ?s1 ?g1"
  have t: "gl_buffers ?g1 = gl_buffers g - set (map m_vbo (m_asteroids s))"
    "gl_arrays ?g1 = gl_arrays g - set (map m_vao (m_asteroids s))"
    "gl_next_buffer ?g1 = gl_next_buffer g" "gl_next_array ?g1 = gl_next_array g"
    using fold_terminate_gl [of "m_asteroids s" g] by (simp_all add: asteroids_terminateGL_def)
  have ok1: "gl_names_ok ?g1"
    using assms(2) by (rule terminateGL_names_ok)
  then have pos: "0 < gl_next_buffer ?g1"
    by (simp add: gl_names_ok_def)
  have r: "map m_vbo (fst ?r) = [gl_next_buffer g..<gl_next_buffer g + nat (CONST_QUANTIDADE_NAVES s)]"
    "map m_vao (fst ?r) = [gl_next_array g..<gl_next_array g + nat (CONST_QUANTIDADE_NAVES s)]"
    "gl_buffers (snd (snd ?r)) = (gl_buffers g - set (map m_vbo (m_asteroids s)))
        \<union> {gl_next_buffer g..<gl_next_buffer g + nat (CONST_QUANTIDADE_NAVES s)}"
    "gl_arrays (snd (snd ?r)) = (gl_arrays g - set (map m_vao (m_asteroids s)))
        \<union> {gl_next_array g..<gl_next_array g + nat (CONST_QUANTIDADE_NAVES s)}"
    "gl_next_buffer (snd (snd ?r)) = gl_next_buffer g + nat (CONST_QUANTIDADE_NAVES s)"
    "gl_next_array (snd (snd ?r)) = gl_next_array g + nat (CONST_QUANTIDADE_NAVES s)"
    using init_loop_names [OF pos, of ?xs 1 "-0.8" ?s1] t by simp_all
  have old: "\<forall>b \<in> gl_buffers g. 0 < b \<and> b < gl_next_buffer g"
    "\<forall>a \<in> gl_arrays g. 0 < a \<and> a < gl_next_array g"
    "0 < gl_next_buffer g" "0 < gl_next_array g"
    using assms(2) by (simp_all add: gl_names_ok_def)
  have "gl_names_ok (snd (snd ?r))"
    unfolding gl_names_ok_def r(3-6) using old by fastforce
  moreover have "asteroids_initializeGL p seed s g = Inr ((fst (snd ?r))\<lparr>m_asteroids := fst ?r\<rparr>, snd (snd ?r))"
    using asteroids_initializeGL_Inr [OF assms(1), of p seed g] by simp
  ultimately show ?thesis
    using that r(1-4) by simp
qed

text \<open>
  C14: rebuild is full teardown then full recreate. From a context whose names
  are well formed, \<open>initializeGL\<close> returns a formation whose \<open>N\<close> buffers and
  \<open>N\<close> vertex arrays are distinct and fresh (none was live before), and the live
  sets afterwards are the previous ones minus the old actors' names plus the new.
\<close>

theorem initializeGL_replaces_resources:
  assumes "0 \<le> CONST_QUANTIDADE_NAVES s" and "gl_names_ok g"
  shows "\<exists>s' g'. asteroids_initializeGL p seed s g = Inr (s', g')
    \<and> length (m_asteroids s') = nat (CONST_QUANTIDADE_NAVES s)
    \<and> distinct (map m_vbo (m_asteroids s')) \<and> distinct (map m_vao (m_asteroids s'))
    \<and> set (map m_vbo (m_asteroids s')) \<inter> gl_buffers g = {}
    \<and> set (map m_vao (m_asteroids s')) \<inter> gl_arrays g = {}
    \<and> gl_buffers g' = (gl_buffers g - set (map m_vbo (m_asteroids s))) \<union> set (map m_vbo (m_asteroids s'))
    \<and> gl_arrays g' = (gl_arrays g - set (map m_vao (m_asteroids s))) \<union> set (map m_vao (m_asteroids s'))"
proof -
  let ?n = "nat (CONST_QUANTIDADE_NAVES s)"
  obtain s' g' where r: "asteroids_initializeGL p seed s g = Inr (s', g')"
    and b: "map m_vbo (m_asteroids s') = [gl_next_buffer g..<gl_next_buffer g + ?n]"
    and v: "map m_vao (m_asteroids s') = [gl_next_array g..<gl_next_array g + ?n]"
    and gb: "gl_buffers g' = (gl_buffers g - set (map m_vbo (m_asteroids s)))
                          \<union> {gl_next_buffer g..<gl_next_buffer g + ?n}"
    and ga: "gl_arrays g' = (gl_arrays g - set (map m_vao (m_asteroids s)))
                          \<union> {gl_next_array g..<gl_next_array g + ?n}"
    and "gl_names_ok g'"
    by (rule initializeGL_gl [OF assms])
  have sb: "set (map m_vbo (m_asteroids s')) = {gl_next_buffer g..<gl_next_buffer g + ?n}"
    by (simp only: b set_upt)
  have sv: "set (map m_vao (m_asteroids s')) = {gl_next_array g..<gl_next_array g + ?n}"
    by (simp only: v set_upt)
  have len: "length (m_asteroids s') = ?n"
    using arg_cong [OF b, of length] by simp
  have dist: "distinct (map m_vbo (m_asteroids s'))" "distinct (map m_vao (m_asteroids s'))"
    by (simp_all only: b v distinct_upt)
  have below: "\<forall>x \<in> gl_buffers g. x < gl_next_buffer g" "\<forall>x \<in> gl_arrays g. x < gl_next_array g"
    using assms(2) by (simp_all add: gl_names_ok_def)
  have f1: "set (map m_vbo (m_asteroids s')) \<inter> gl_buffers g = {}"
    unfolding sb using below(1) by auto
  have f2: "set (map m_vao (m_asteroids s')) \<inter> gl_arrays g = {}"
    unfolding sv using below(2) by auto
  have f3: "gl_buffers g' = (gl_buffers g - set (map m_vbo (m_asteroids s))) \<union> set (map m_vbo (m_asteroids s'))"
    unfolding sb by (rule gb)
  have f4: "gl_arrays g' = (gl_arrays g - set (map m_vao (m_asteroids s))) \<union> set (map m_vao (m_asteroids s'))"
    unfolding sv by (rule ga)
  show ?thesis
    by (rule exI [of _ s'], rule exI [of _ g'], intro conjI,
        fact r, fact len, fact dist(1), fact dist(2), fact f1, fact f2, fact f3, fact f4)
qed

theorem initializeGL_replaces_resources_witness:
  "\<exists>s' g'. asteroids_initializeGL 1 42 Asteroids_default (gl_init (\<lambda>_ _. 0) (\<lambda>_ _. 0)) = Inr (s', g')
    \<and> length (m_asteroids s') = 14
    \<and> distinct (map m_vbo (m_asteroids s')) \<and> distinct (map m_vao (m_asteroids s'))
    \<and> gl_buffers g' = set (map m_vbo (m_asteroids s')) \<and> gl_arrays g' = set (map m_vao (m_asteroids s'))"
proof -
  have h: "0 \<le> CONST_QUANTIDADE_NAVES Asteroids_default" "gl_names_ok (gl_init (\<lambda>_ _. 0) (\<lambda>_ _. 0))"
    by (simp_all add: Asteroids_default_def gl_init_names_ok)
  show ?thesis
    using initializeGL_replaces_resources [OF h, of 1 42]
    by (simp add: Asteroids_default_def gl_init_def)
qed

text \<open>
  C15: at most \<open>N\<close> live geometry allocations. If every live buffer and vertex
  array of the context belongs to the current actors (the formation owns the
  context), then after \<open>initializeGL\<close> exactly \<open>N\<close> buffers and \<open>N\<close> vertex arrays
  are live: nothing of the previous build leaks.
\<close>

theorem initializeGL_no_leak:
  assumes "0 \<le> CONST_QUANTIDADE_NAVES s" and "gl_names_ok g"
    and "gl_buffers g \<subseteq> set (map m_vbo (m_asteroids s))"
    and "gl_arrays g \<subseteq> set (map m_vao (m_asteroids s))"
  shows "\<exists>s' g'. asteroids_initializeGL p seed s g = Inr (s', g')
    \<and> card (gl_buffers g') = nat (CONST_QUANTIDADE_NAVES s)
    \<and> card (gl_arrays g') = nat (CONST_QUANTIDADE_NAVES s)"
proof -
  let ?n = "nat (CONST_QUANTIDADE_NAVES s)"
  obtain s' g' where r: "asteroids_initializeGL p seed s g = Inr (s', g')"
    and "map m_vbo (m_asteroids s') = [gl_next_buffer g..<gl_next_buffer g + ?n]"
    and "map m_vao (m_asteroids s') = [gl_next_array g..<gl_next_array g + ?n]"
    and gb: "gl_buffers g' = (gl_buffers g - set (map m_vbo (m_asteroids s)))
                          \<union> {gl_next_buffer g..<gl_next_buffer g + ?n}"
    and ga: "gl_arrays g' = (gl_arrays g - set (map m_vao (m_asteroids s)))
                          \<union> {gl_next_array g..<gl_next_array g + ?n}"
    and "gl_names_ok g'"
    by (rule initializeGL_gl [OF assms(1,2)])
  have "gl_buffers g' = {gl_next_buffer g..<gl_next_buffer g + ?n}"
    using gb assms(3) by blast
  moreover have "gl_arrays g' = {gl_next_array g..<gl_next_array g + ?n}"
    using ga assms(4) by blast
  ultimately show ?thesis
    using r by simp
qed

theorem initializeGL_no_leak_witness:
  "\<exists>s' g'. asteroids_initializeGL 1 42 Asteroids_default (gl_init (\<lambda>_ _. 0) (\<lambda>_ _. 0)) = Inr (s', g')
    \<and> card (gl_buffers g') = 14 \<and> card (gl_arrays g') = 14"
proof -
  have h: "0 \<le> CONST_QUANTIDADE_NAVES Asteroids_default" "gl_names_ok (gl_init (\<lambda>_ _. 0) (\<lambda>_ _. 0))"
    "gl_buffers (gl_init (\<lambda>_ _. 0) (\<lambda>_ _. 0)) \<subseteq> set (map m_vbo (m_asteroids Asteroids_default))"
    "gl_arrays (gl_init (\<lambda>_ _. 0) (\<lambda>_ _. 0)) \<subseteq> set (map m_vao (m_asteroids Asteroids_default))"
    by (simp add: Asteroids_default_def, rule gl_init_names_ok, simp_all add: gl_init_def)
  show ?thesis
    using initializeGL_no_leak [OF h, of 1 42] by (simp add: Asteroids_default_def)
qed

text \<open>
  C16: \<open>terminateGL\<close> releases every actor's buffer and vertex array and nothing
  else: the live sets lose exactly the names the actor list holds.
\<close>

theorem terminateGL_releases:
  "gl_buffers (asteroids_terminateGL s g) = gl_buffers g - set (map m_vbo (m_asteroids s))
   \<and> gl_arrays (asteroids_terminateGL s g) = gl_arrays g - set (map m_vao (m_asteroids s))"
  using fold_terminate_gl [of "m_asteroids s" g] by (simp add: asteroids_terminateGL_def)

end
