(* ===== verification/Render.thy ===== *)
theory Render
  imports Resources
begin

text \<open>
  The Render Adapter: \<open>Asteroids::paintGL()\<close> of
  \<open>src/examples/asteroids/asteroids.cpp\<close>, as the sequence of GL calls it makes,
  run on the context by \<open>gl_run\<close>. For each actor it binds the actor's vertex
  array, sets colour and scale, and draws the fan nine times, offset by
  \<open>{-2, 0, 2}\<close> on both axes (\<open>i\<close> the row offset, outer; \<open>j\<close> the column offset,
  inner). The rotation uniform is commented out in the source and is not sent.
  The lemmas give the draw log paintGL appends, and show that painting leaves
  resources alone, that rotation has no effect on what is drawn, that every draw
  of a built formation reads past its 16-vertex buffer, and that painting after
  \<open>terminateGL\<close> draws from deleted vertex arrays.
\<close>

section \<open>Operations\<close>

definition paint_tile :: "Asteroids \<Rightarrow> Asteroid \<Rightarrow> int \<Rightarrow> int \<Rightarrow> gl_cmd list" where
  "paint_tile s a i j =
     [Uniform2f (m_translationLoc s) (vx (m_translation a) + of_int j) (vy (m_translation a) + of_int i),
      DrawArraysFan 0 (m_polygonSides a + 2)]"

definition paint_asteroid :: "Asteroids \<Rightarrow> Asteroid \<Rightarrow> gl_cmd list" where
  "paint_asteroid s a =
     [BindVertexArray (m_vao a), Uniform4fv (m_colorLoc s) (m_color a), Uniform1f (m_scaleLoc s) (m_scale a)]
     @ concat (map (\<lambda>i. concat (map (paint_tile s a i) [-2, 0, 2])) [-2, 0, 2])
     @ [BindVertexArray 0]"

definition asteroids_paintGL :: "Asteroids \<Rightarrow> gl_state \<Rightarrow> gl_state" where
  "asteroids_paintGL s g =
     gl_run ([UseProgram (m_program s)] @ concat (map (paint_asteroid s) (m_asteroids s)) @ [UseProgram 0]) g"

declare paint_tile_def [eval_simps] paint_asteroid_def [eval_simps] asteroids_paintGL_def [eval_simps]

text \<open>The nine draws one actor contributes to the log, in the order the loops issue them.\<close>

definition tile_draws :: "Asteroids \<Rightarrow> Asteroid \<Rightarrow> draw_call list" where
  "tile_draws s a =
     [\<lparr>dc_program = m_program s, dc_vao = m_vao a, dc_first = 0, dc_count = m_polygonSides a + 2,
       dc_translation = [vx (m_translation a) + of_int j, vy (m_translation a) + of_int i]\<rparr>.
      i \<leftarrow> [-2, 0, 2], j \<leftarrow> [-2, 0, 2]]"

text \<open>The uniform locations \<open>initializeGL\<close> read agree with the context's program.\<close>

definition locations_ok :: "Asteroids \<Rightarrow> gl_state \<Rightarrow> bool" where
  "locations_ok s g \<longleftrightarrow> m_translationLoc s = gl_uniform_location g (m_program s) ''translation''
     \<and> m_translationLoc s \<noteq> -1"

text \<open>A one-actor formation and a context with its vertex array live, for the examples.\<close>

definition one_tile_state :: Asteroids where
  "one_tile_state = Asteroids_default\<lparr>m_translationLoc := 2,
     m_asteroids := [Asteroid_default\<lparr>m_vao := 1, m_vbo := 1, m_polygonSides := 16\<rparr>]\<rparr>"

definition one_tile_ctx :: gl_state where
  "one_tile_ctx = snd (glGenVertexArrays (gl_init (\<lambda>_ _. 2) (\<lambda>_ _. 0)))"

section \<open>Lemmas\<close>

lemma paint_asteroid_run:
  assumes "locations_ok s g" and "gl_program g = m_program s"
  shows "gl_draws (gl_run (paint_asteroid s a) g) = gl_draws g @ tile_draws s a
    \<and> gl_program (gl_run (paint_asteroid s a) g) = gl_program g
    \<and> gl_buffers (gl_run (paint_asteroid s a) g) = gl_buffers g
    \<and> gl_arrays (gl_run (paint_asteroid s a) g) = gl_arrays g
    \<and> gl_buffer_data (gl_run (paint_asteroid s a) g) = gl_buffer_data g
    \<and> gl_vao_source (gl_run (paint_asteroid s a) g) = gl_vao_source g"
  using assms by (simp add: paint_asteroid_def paint_tile_def tile_draws_def locations_ok_def)

lemma paint_list_run:
  assumes "locations_ok s g" and "gl_program g = m_program s"
  shows "gl_draws (gl_run (concat (map (paint_asteroid s) as)) g) = gl_draws g @ concat (map (tile_draws s) as)
    \<and> gl_program (gl_run (concat (map (paint_asteroid s) as)) g) = gl_program g
    \<and> gl_buffers (gl_run (concat (map (paint_asteroid s) as)) g) = gl_buffers g
    \<and> gl_arrays (gl_run (concat (map (paint_asteroid s) as)) g) = gl_arrays g
    \<and> gl_buffer_data (gl_run (concat (map (paint_asteroid s) as)) g) = gl_buffer_data g
    \<and> gl_vao_source (gl_run (concat (map (paint_asteroid s) as)) g) = gl_vao_source g"
  using assms
proof (induction as arbitrary: g)
  case Nil
  then show ?case by simp
next
  case (Cons a as)
  let ?g1 = "gl_run (paint_asteroid s a) g"
  have g1: "gl_draws ?g1 = gl_draws g @ tile_draws s a" "gl_program ?g1 = gl_program g"
    "gl_buffers ?g1 = gl_buffers g" "gl_arrays ?g1 = gl_arrays g"
    "gl_buffer_data ?g1 = gl_buffer_data g" "gl_vao_source ?g1 = gl_vao_source g"
    using paint_asteroid_run [OF Cons.prems] by simp_all
  have "locations_ok s ?g1"
    using Cons.prems(1) by (simp add: locations_ok_def)
  then show ?case
    using Cons.IH [of ?g1] g1 Cons.prems(2) by (simp add: gl_run_append)
qed

lemma paintGL_run:
  assumes "locations_ok s g"
  shows "gl_draws (asteroids_paintGL s g) = gl_draws g @ concat (map (tile_draws s) (m_asteroids s))
    \<and> gl_buffers (asteroids_paintGL s g) = gl_buffers g
    \<and> gl_arrays (asteroids_paintGL s g) = gl_arrays g
    \<and> gl_buffer_data (asteroids_paintGL s g) = gl_buffer_data g
    \<and> gl_vao_source (asteroids_paintGL s g) = gl_vao_source g"
proof -
  let ?g0 = "gl_exec (UseProgram (m_program s)) g"
  have "locations_ok s ?g0" "gl_program ?g0 = m_program s"
    using assms by (simp_all add: locations_ok_def)
  from paint_list_run [OF this, of "m_asteroids s"] show ?thesis
    by (simp add: asteroids_paintGL_def gl_run_append)
qed


lemma tile_draws_length [simp]: "length (tile_draws s a) = 9"
  by (simp add: tile_draws_def)

lemma tile_draws_fields:
  "d \<in> set (tile_draws s a) \<Longrightarrow>
     dc_program d = m_program s \<and> dc_vao d = m_vao a \<and> dc_first d = 0 \<and> dc_count d = m_polygonSides a + 2"
  by (auto simp: tile_draws_def)

lemma tile_draws_translations:
  "set (map dc_translation (tile_draws s a)) =
     (\<lambda>(i, j). [vx (m_translation a) + of_int j, vy (m_translation a) + of_int i]) ` ({-2, 0, 2} \<times> {-2, 0, 2})"
  by (simp add: tile_draws_def insert_commute)

lemma concat_tile_draws_length: "length (concat (map (tile_draws s) as)) = 9 * length as"
  by (induction as) simp_all

lemma fold_terminate_draws:
  "gl_draws (fold terminate_one xs g) = gl_draws g"
  by (induction xs arbitrary: g) (simp_all add: terminate_one_def)

lemma createAsteroid_draws: "gl_draws (snd (snd (createAsteroid t s g))) = gl_draws g"
  by (simp add: createAsteroid_def Let_def case_prod_unfold glGenBuffers_def glGenVertexArrays_def
      upload_geometry_def bind_attributes_def)

lemma init_loop_draws: "gl_draws (snd (snd (init_loop xs i x s g))) = gl_draws g"
  by (induction xs arbitrary: i x s g) (simp_all add: init_loop_Cons_eq Let_def createAsteroid_draws)

text \<open>Every actor of a built formation is a 16-sided fan whose vertex array reads the ship buffer.\<close>

lemma init_loop_built:
  assumes "0 < gl_next_buffer g" and "a \<in> set (fst (init_loop xs i x s g))"
  shows "m_polygonSides a = 16
    \<and> gl_vao_source (snd (snd (init_loop xs i x s g))) (m_vao a) = Some (m_vbo a)
    \<and> gl_buffer_data (snd (snd (init_loop xs i x s g))) (m_vbo a) = Some ship_positions"
proof -
  let ?r = "init_loop xs i x s g"
  obtain k where k: "k < length xs" "a = fst ?r ! k"
    using assms(2) by (auto simp: in_set_conv_nth)
  have names: "map m_vbo (fst ?r) = [gl_next_buffer g..<gl_next_buffer g + length xs]"
    "map m_vao (fst ?r) = [gl_next_array g..<gl_next_array g + length xs]"
    using init_loop_names [OF assms(1), of xs i x s] by simp_all
  have "m_vbo a = map m_vbo (fst ?r) ! k" "m_vao a = map m_vao (fst ?r) ! k"
    using k by simp_all
  then have "m_vbo a = gl_next_buffer g + k" "m_vao a = gl_next_array g + k"
    using names k(1) by simp_all
  then show ?thesis
    using init_loop_links [OF assms(1) k(1), of i x s] init_loop_sides [OF assms(2)] by simp
qed

lemma initializeGL_built:
  assumes "0 \<le> CONST_QUANTIDADE_NAVES s" and "gl_names_ok g"
  obtains s' g' where "asteroids_initializeGL p seed s g = Inr (s', g')"
    and "m_program s' = p"
    and "m_translationLoc s' = gl_uniform_location g p ''translation''"
    and "gl_uniform_location g' = gl_uniform_location g" and "gl_draws g' = gl_draws g"
    and "length (m_asteroids s') = nat (CONST_QUANTIDADE_NAVES s)"
    and "\<forall>a \<in> set (m_asteroids s'). m_polygonSides a = 16
           \<and> gl_vao_source g' (m_vao a) = Some (m_vbo a)
           \<and> gl_buffer_data g' (m_vbo a) = Some ship_positions"
proof -
  let ?g1 = "asteroids_terminateGL s g"
  let ?xs = "replicate (nat (CONST_QUANTIDADE_NAVES s)) Asteroid_default"
  let ?s1 = "s\<lparr>m_randomEngine := minstd_seed seed, m_program := p,
                 m_colorLoc := gl_uniform_location ?g1 p ''color'',
                 m_rotationLoc := gl_uniform_location ?g1 p ''rotation'',
                 m_scaleLoc := gl_uniform_location ?g1 p ''scale'',
                 m_translationLoc := gl_uniform_location ?g1 p ''translation'',
                 m_asteroids := ?xs\<rparr>"
  let ?r = "init_loop ?xs 1 (-0.8) ?s1 ?g1"
  have u: "gl_uniform_location ?g1 = gl_uniform_location g"
    using fold_terminate_gl [of "m_asteroids s" g] by (simp add: asteroids_terminateGL_def)
  have pos: "0 < gl_next_buffer ?g1"
    using terminateGL_names_ok [OF assms(2)] by (simp add: gl_names_ok_def)
  have eq: "asteroids_initializeGL p seed s g = Inr ((fst (snd ?r))\<lparr>m_asteroids := fst ?r\<rparr>, snd (snd ?r))"
    using asteroids_initializeGL_Inr [OF assms(1), of p seed g] by simp
  have st: "fst (snd ?r) = ?s1\<lparr>m_randomEngine := (minstd_next ^^ (3 * length ?xs)) (m_randomEngine ?s1)\<rparr>"
    by (rule init_loop_state)
  have ul: "gl_uniform_location (snd (snd ?r)) = gl_uniform_location g"
    using init_loop_names [OF pos, of ?xs 1 "-0.8" ?s1] u by simp
  have dr: "gl_draws (snd (snd ?r)) = gl_draws g"
    using init_loop_draws fold_terminate_draws by (simp add: asteroids_terminateGL_def)
  have "\<forall>a \<in> set (fst ?r). m_polygonSides a = 16
           \<and> gl_vao_source (snd (snd ?r)) (m_vao a) = Some (m_vbo a)
           \<and> gl_buffer_data (snd (snd ?r)) (m_vbo a) = Some ship_positions"
    using init_loop_built [OF pos] by blast
  then show ?thesis
    using that [OF eq] st u ul dr by simp
qed

section \<open>Rendering properties\<close>

text \<open>
  C17: paintGL draws each actor as a 3x3 tiling. Given the translation location of
  the bound program, paintGL appends to the draw log, actor after actor, nine fan
  draws of the actor's vertex array, translated by \<open>{-2, 0, 2}\<close> on both axes
  around the actor's position, and allocates or frees nothing.
\<close>

theorem paintGL_tiles:
  assumes "locations_ok s g"
  shows "gl_draws (asteroids_paintGL s g) = gl_draws g @ concat (map (tile_draws s) (m_asteroids s))
    \<and> (\<forall>a \<in> set (m_asteroids s). length (tile_draws s a) = 9
         \<and> (\<forall>d \<in> set (tile_draws s a). dc_vao d = m_vao a \<and> dc_count d = m_polygonSides a + 2)
         \<and> set (map dc_translation (tile_draws s a)) =
             (\<lambda>(i, j). [vx (m_translation a) + of_int j, vy (m_translation a) + of_int i]) ` ({-2, 0, 2} \<times> {-2, 0, 2}))
    \<and> gl_buffers (asteroids_paintGL s g) = gl_buffers g \<and> gl_arrays (asteroids_paintGL s g) = gl_arrays g"
  using paintGL_run [OF assms] tile_draws_fields tile_draws_translations by simp

theorem paintGL_tiles_witness:
  "gl_draws (asteroids_paintGL one_tile_state (gl_init (\<lambda>_ _. 2) (\<lambda>_ _. 0)))
     = tile_draws one_tile_state (Asteroid_default\<lparr>m_vao := 1, m_vbo := 1, m_polygonSides := 16\<rparr>)
   \<and> map dc_translation (gl_draws (asteroids_paintGL one_tile_state (gl_init (\<lambda>_ _. 2) (\<lambda>_ _. 0))))
     = [[-2, -2], [0, -2], [2, -2], [-2, 0], [0, 0], [2, 0], [-2, 2], [0, 2], [2, 2]]"
proof -
  have h: "locations_ok one_tile_state (gl_init (\<lambda>_ _. 2) (\<lambda>_ _. 0))"
    by (simp add: locations_ok_def one_tile_state_def Asteroids_default_def gl_init_def)
  show ?thesis
    using paintGL_tiles [OF h]
    by (simp add: one_tile_state_def Asteroids_default_def Asteroid_default_def gl_init_def
        tile_draws_def vec2_zero_def)
qed

text \<open>
  C18: the draw count reads past the vertex buffer. After \<open>initializeGL\<close> every
  actor's buffer holds the 16 vertices of the ship, but paintGL draws
  \<open>m_polygonSides + 2 = 18\<close> vertices per fan: each of the \<open>9 N\<close> draws of the
  next frame reads beyond its buffer.
\<close>

theorem paintGL_reads_past_buffer:
  assumes "0 \<le> CONST_QUANTIDADE_NAVES s" and "gl_names_ok g"
    and "gl_uniform_location g p ''translation'' \<noteq> -1"
  shows "\<exists>s' g'. asteroids_initializeGL p seed s g = Inr (s', g') \<and> gl_draws g' = gl_draws g
    \<and> length (gl_draws (asteroids_paintGL s' g')) = length (gl_draws g') + 9 * nat (CONST_QUANTIDADE_NAVES s)
    \<and> (\<forall>d \<in> set (drop (length (gl_draws g')) (gl_draws (asteroids_paintGL s' g'))).
          dc_count d = 18 \<and> \<not> draw_in_bounds (asteroids_paintGL s' g') d)"
proof -
  obtain s' g' where r: "asteroids_initializeGL p seed s g = Inr (s', g')"
    and prog: "m_program s' = p"
    and loc: "m_translationLoc s' = gl_uniform_location g p ''translation''"
    and ul: "gl_uniform_location g' = gl_uniform_location g" and dr: "gl_draws g' = gl_draws g"
    and len: "length (m_asteroids s') = nat (CONST_QUANTIDADE_NAVES s)"
    and built: "\<forall>a \<in> set (m_asteroids s'). m_polygonSides a = 16
           \<and> gl_vao_source g' (m_vao a) = Some (m_vbo a)
           \<and> gl_buffer_data g' (m_vbo a) = Some ship_positions"
    by (rule initializeGL_built [OF assms(1,2)])
  have "locations_ok s' g'"
    using prog loc ul assms(3) by (simp add: locations_ok_def)
  note run = paintGL_run [OF this]
  let ?g2 = "asteroids_paintGL s' g'"
  have sixteen: "length ship_positions = 16"
    by (simp add: ship_positions_def)
  have out: "dc_count d = 18 \<and> \<not> draw_in_bounds ?g2 d"
    if d: "d \<in> set (concat (map (tile_draws s') (m_asteroids s')))" for d
  proof -
    obtain a where a: "a \<in> set (m_asteroids s')" "d \<in> set (tile_draws s' a)"
      using d unfolding set_concat set_map by blast
    then show ?thesis
      using tile_draws_fields [OF a(2)] built run sixteen by (simp add: draw_in_bounds_def)
  qed
  show ?thesis
    using r dr run out len by (simp add: concat_tile_draws_length)
qed

theorem paintGL_reads_past_buffer_witness:
  "\<exists>s' g'. asteroids_initializeGL 1 42 Asteroids_default (gl_init (\<lambda>_ _. 2) (\<lambda>_ _. 0)) = Inr (s', g')
    \<and> length (gl_draws (asteroids_paintGL s' g')) = 126
    \<and> filter (draw_in_bounds (asteroids_paintGL s' g')) (gl_draws (asteroids_paintGL s' g')) = []"
proof -
  have h: "0 \<le> CONST_QUANTIDADE_NAVES Asteroids_default" "gl_names_ok (gl_init (\<lambda>_ _. 2) (\<lambda>_ _. 0))"
    "gl_uniform_location (gl_init (\<lambda>_ _. 2) (\<lambda>_ _. 0)) 1 ''translation'' \<noteq> -1"
    by (simp add: Asteroids_default_def, rule gl_init_names_ok, simp add: gl_init_def)
  show ?thesis
    using paintGL_reads_past_buffer [OF h, of 42] by (auto simp: Asteroids_default_def gl_init_def)
qed

text \<open>
  C19: the rotation is never rendered. paintGL sends no rotation uniform (the call
  is commented out in the source), so changing every actor's \<open>m_rotation\<close> and
  the rotation location leaves the whole context after paintGL unchanged.
\<close>

theorem paintGL_ignores_rotation:
  "asteroids_paintGL (s\<lparr>m_rotationLoc := l, m_asteroids := map (\<lambda>a. a\<lparr>m_rotation := f a\<rparr>) (m_asteroids s)\<rparr>) g
     = asteroids_paintGL s g"
proof -
  have "paint_asteroid (s\<lparr>m_rotationLoc := l, m_asteroids := as\<rparr>) (a\<lparr>m_rotation := r\<rparr>) = paint_asteroid s a"
    for as a r
    by (simp add: paint_asteroid_def paint_tile_def)
  then show ?thesis
    by (simp add: asteroids_paintGL_def comp_def)
qed

text \<open>
  C20: painting after terminateGL draws deleted vertex arrays. terminateGL frees
  the names but keeps the actor list, so a paintGL that follows still issues all
  nine draws per actor, each from a vertex array that is no longer live.
\<close>

theorem paintGL_after_terminateGL:
  assumes "locations_ok s g"
  shows "gl_draws (asteroids_paintGL s (asteroids_terminateGL s g)) = gl_draws g @ concat (map (tile_draws s) (m_asteroids s))
    \<and> (\<forall>d \<in> set (concat (map (tile_draws s) (m_asteroids s))).
         dc_vao d \<notin> gl_arrays (asteroids_paintGL s (asteroids_terminateGL s g)))"
proof -
  let ?g1 = "asteroids_terminateGL s g"
  have t: "gl_arrays ?g1 = gl_arrays g - set (map m_vao (m_asteroids s))"
    "gl_uniform_location ?g1 = gl_uniform_location g" "gl_draws ?g1 = gl_draws g"
    using fold_terminate_gl [of "m_asteroids s" g] fold_terminate_draws [of "m_asteroids s" g]
    by (simp_all add: asteroids_terminateGL_def)
  have "locations_ok s ?g1"
    using assms t(2) by (simp add: locations_ok_def)
  note run = paintGL_run [OF this]
  have "dc_vao d \<notin> gl_arrays (asteroids_paintGL s ?g1)"
    if d: "d \<in> set (concat (map (tile_draws s) (m_asteroids s)))" for d
  proof -
    obtain a where a: "a \<in> set (m_asteroids s)" "d \<in> set (tile_draws s a)"
      using d unfolding set_concat set_map by blast
    then show ?thesis
      using tile_draws_fields [OF a(2)] run t(1) by simp
  qed
  then show ?thesis
    using run t(3) by simp
qed

theorem paintGL_after_terminateGL_witness:
  "length (gl_draws (asteroids_paintGL one_tile_state (asteroids_terminateGL one_tile_state one_tile_ctx))) = 9
   \<and> map dc_vao (gl_draws (asteroids_paintGL one_tile_state (asteroids_terminateGL one_tile_state one_tile_ctx)))
        = [1, 1, 1, 1, 1, 1, 1, 1, 1]
   \<and> 1 \<in> gl_arrays one_tile_ctx
   \<and> 1 \<notin> gl_arrays (asteroids_paintGL one_tile_state (asteroids_terminateGL one_tile_state one_tile_ctx))"
proof -
  have h: "locations_ok one_tile_state one_tile_ctx"
    by (simp add: locations_ok_def one_tile_state_def one_tile_ctx_def Asteroids_default_def gl_init_def
        glGenVertexArrays_def)
  let ?g = "asteroids_paintGL one_tile_state (asteroids_terminateGL one_tile_state one_tile_ctx)"
  have d: "gl_draws ?g = gl_draws one_tile_ctx @ concat (map (tile_draws one_tile_state) (m_asteroids one_tile_state))"
    and n: "\<forall>d \<in> set (concat (map (tile_draws one_tile_state) (m_asteroids one_tile_state))). dc_vao d \<notin> gl_arrays ?g"
    using paintGL_after_terminateGL [OF h] by blast+
  have c: "concat (map (tile_draws one_tile_state) (m_asteroids one_tile_state))
      = tile_draws one_tile_state (Asteroid_default\<lparr>m_vao := 1, m_vbo := 1, m_polygonSides := 16\<rparr>)"
    by (simp add: one_tile_state_def)
  have e: "gl_draws one_tile_ctx = []" "1 \<in> gl_arrays one_tile_ctx"
    by (simp_all add: one_tile_ctx_def gl_init_def glGenVertexArrays_def)
  have "map dc_vao (tile_draws one_tile_state (Asteroid_default\<lparr>m_vao := 1, m_vbo := 1, m_polygonSides := 16\<rparr>))
      = [1, 1, 1, 1, 1, 1, 1, 1, 1]"
    by (simp add: tile_draws_def)
  then show ?thesis
    using d n c e by (simp add: tile_draws_def)
qed

end
