(* ===== verification/Enemies.thy ===== *)
theory Enemies
  imports Render
begin

text \<open>
  The enemy variant: class \<open>Enemies\<close> of \<open>src/examples/ataqueATerra/enemies.cpp\<close>.
  Its header (\<open>enemies.hpp\<close>) and \<open>GameData\<close> (\<open>gamedata.hpp\<close>) are not in the
  repository; following the spec, an \<open>Enemy\<close> is the actor record and the class
  holds the data members of \<open>Asteroids\<close> (\<open>m_enemies\<close> is the field
  \<open>m_asteroids\<close>), so both types are synonyms here, and \<open>GameData\<close> is reduced
  to the one field the code reads, the speed factor \<open>fator_vel_jogo\<close>. Every
  member function of \<open>enemies.cpp\<close> is translated in full. The lemmas show that
  \<open>initializeGL\<close>, \<open>paintGL\<close> and \<open>terminateGL\<close> compute the same as their
  \<open>Asteroids\<close> counterparts, that \<open>update\<close> with speed factor 0.4 is
  \<open>Asteroids::update\<close>, and that \<open>update\<close> keeps the formation invariant for
  every speed factor whose drift per frame is at most 2.
\<close>

section \<open>Data\<close>

record GameData =
  fator_vel_jogo :: real

type_synonym Enemy = Asteroid

type_synonym Enemies = Asteroids

section \<open>Operations\<close>

text \<open>
  \<open>createEnemy\<close>: as \<open>createAsteroid\<close>; the distribution \<open>randomIntensity\<close> it
  constructs is never called, so it draws nothing.
\<close>

definition createEnemy :: "vec2 \<Rightarrow> Enemies \<Rightarrow> gl_state \<Rightarrow> Enemy \<times> Enemies \<times> gl_state" where
  "createEnemy translation s g =
     (let (angularVelocity, re1) = uniform_real (m_randomDist s) (m_randomEngine s);
          (dx, re2) = uniform_real (m_randomDist s) re1;
          (dy, re3) = uniform_real (m_randomDist s) re2;
          direction = \<lparr>vx = dx, vy = dy\<rparr>;
          (vbo, g1) = glGenBuffers g;
          g2 = gl_run [BindBuffer vbo, BufferData ship_positions, BindBuffer 0] g1;
          positionAttribute = gl_attrib_location g2 (m_program s) ''inPosition'';
          (vao, g3) = glGenVertexArrays g2;
          g4 = gl_run [BindVertexArray vao, BindBuffer vbo, EnableVertexAttribArray positionAttribute,
                       VertexAttribPointer positionAttribute 2, BindBuffer 0, BindVertexArray 0] g3;
          enemy = \<lparr>m_vao = vao, m_vbo = vbo, m_angularVelocity = angularVelocity,
            m_color = \<lparr>vr = 1, vg = 0.5, vb = 0.5, va = 1\<rparr>, m_hit = False,
            m_polygonSides = 16, m_rotation = 0, m_scale = 0.02,
            m_translation = translation,
            m_velocity = vec2_scale (1 / 7) (glm_normalize direction)\<rparr>
      in (enemy, s\<lparr>m_randomEngine := re3\<rparr>, g4))"

text \<open>The placement loop of \<open>Enemies::initializeGL\<close>; its if-chain is the one of \<open>place_step\<close>.\<close>

fun enemies_init_loop :: "Enemy list \<Rightarrow> int \<Rightarrow> real \<Rightarrow> Enemies \<Rightarrow> gl_state
                    \<Rightarrow> Enemy list \<times> Enemies \<times> gl_state" where
  "enemies_init_loop [] index x s g = ([], s, g)"
| "enemies_init_loop (_ # rest) index x s g =
     (let (enemy, s1, g1) = createEnemy vec2_zero s g;
          (t, x1) = place_step (CONST_QUANTIDADE_NAVES s) index x;
          enemy1 = (case t of Some p \<Rightarrow> enemy\<lparr>m_translation := p\<rparr> | None \<Rightarrow> enemy);
          (rest1, s2, g2) = enemies_init_loop rest (index + 1) x1 s1 g1
      in (enemy1 # rest1, s2, g2))"

definition terminate_enemy :: "Enemy \<Rightarrow> gl_state \<Rightarrow> gl_state" where
  "terminate_enemy e g = gl_run [DeleteBuffer (m_vbo e), DeleteVertexArray (m_vao e)] g"

definition enemies_terminateGL :: "Enemies \<Rightarrow> gl_state \<Rightarrow> gl_state" where
  "enemies_terminateGL s g = fold terminate_enemy (m_asteroids s) g"

definition enemies_initializeGL :: "nat \<Rightarrow> nat \<Rightarrow> Enemies \<Rightarrow> gl_state \<Rightarrow> error + Enemies \<times> gl_state" where
  "enemies_initializeGL program seed s g =
     (let g1 = enemies_terminateGL s g;
          s1 = s\<lparr>m_randomEngine := minstd_seed seed, m_program := program,
                 m_colorLoc := gl_uniform_location g1 program ''color'',
                 m_rotationLoc := gl_uniform_location g1 program ''rotation'',
                 m_scaleLoc := gl_uniform_location g1 program ''scale'',
                 m_translationLoc := gl_uniform_location g1 program ''translation'',
                 m_asteroids := []\<rparr>
      in if CONST_QUANTIDADE_NAVES s1 < 0 then Inl Bad_alloc
         else
           (let resized = replicate (nat (CONST_QUANTIDADE_NAVES s1)) Asteroid_default;
                (enemies, s2, g2) = enemies_init_loop resized 1 (-0.8) (s1\<lparr>m_asteroids := resized\<rparr>) g1
            in Inr (s2\<lparr>m_asteroids := enemies\<rparr>, g2)))"

definition paint_enemy :: "Enemies \<Rightarrow> Enemy \<Rightarrow> gl_cmd list" where
  "paint_enemy s e =
     [BindVertexArray (m_vao e), Uniform4fv (m_colorLoc s) (m_color e), Uniform1f (m_scaleLoc s) (m_scale e)]
     @ concat (map (\<lambda>i. concat (map (\<lambda>j.
         [Uniform2f (m_translationLoc s) (vx (m_translation e) + of_int j) (vy (m_translation e) + of_int i),
          DrawArraysFan 0 (m_polygonSides e + 2)]) [-2, 0, 2])) [-2, 0, 2])
     @ [BindVertexArray 0]"

definition enemies_paintGL :: "Enemies \<Rightarrow> gl_state \<Rightarrow> gl_state" where
  "enemies_paintGL s g =
     gl_run ([UseProgram (m_program s)] @ concat (map (paint_enemy s) (m_asteroids s)) @ [UseProgram 0]) g"

text \<open>\<open>Enemies::update(m_gameData, deltaTime)\<close>: the vertical drift is the game's speed factor.\<close>

definition update_enemy :: "real \<Rightarrow> int \<Rightarrow> real \<Rightarrow> Enemy \<Rightarrow> Enemy" where
  "update_enemy fator sentido' deltaTime e =
     (let y1 = vy (m_translation e) - fator * deltaTime;
          x1 = vx (m_translation e) - of_int sentido' * deltaTime;
          rotation = glm_wrapAngle (m_rotation e + m_angularVelocity e * deltaTime);
          x2 = (if x1 < -1 then x1 + 2 else x1);
          x3 = (if x2 > 1 then x2 - 2 else x2);
          y2 = (if y1 < -1 then y1 + 2 else y1);
          y3 = (if y2 > 1 then y2 - 2 else y2)
      in e\<lparr>m_translation := \<lparr>vx = x3, vy = y3\<rparr>, m_rotation := rotation\<rparr>)"

definition enemies_update :: "GameData \<Rightarrow> real \<Rightarrow> Enemies \<Rightarrow> Enemies" where
  "enemies_update m_gameData deltaTime s =
     (let r = tempo_atual_restante s - deltaTime;
          s1 = (if r \<le> 0 then s\<lparr>sentido := sentido s * (-1), tempo_atual_restante := CONST_TEMPO_ZIG_ZAG s\<rparr>
                else s\<lparr>tempo_atual_restante := r\<rparr>)
      in s1\<lparr>m_asteroids := map (update_enemy (fator_vel_jogo m_gameData) (sentido s1) deltaTime) (m_asteroids s1)\<rparr>)"

declare createEnemy_def [eval_simps] terminate_enemy_def [eval_simps] enemies_terminateGL_def [eval_simps]
  enemies_initializeGL_def [eval_simps] paint_enemy_def [eval_simps] enemies_paintGL_def [eval_simps]
  update_enemy_def [eval_simps] enemies_update_def [eval_simps]

section \<open>Lemmas\<close>

lemma createEnemy_eq: "createEnemy t s g = createAsteroid t s g"
  by (simp add: createEnemy_def createAsteroid_def upload_geometry_def bind_attributes_def)

lemma enemies_init_loop_eq: "enemies_init_loop xs i x s g = init_loop xs i x s g"
  by (induction xs arbitrary: i x s g) (simp_all add: createEnemy_eq init_loop.simps)

lemma enemies_terminateGL_eq: "enemies_terminateGL s g = asteroids_terminateGL s g"
proof -
  have "terminate_enemy = terminate_one"
    by (intro ext) (simp add: terminate_enemy_def terminate_one_def)
  then show ?thesis
    by (simp add: enemies_terminateGL_def asteroids_terminateGL_def)
qed

lemma paint_enemy_eq: "paint_enemy s e = paint_asteroid s e"
  by (simp add: paint_enemy_def paint_asteroid_def paint_tile_def)

text \<open>The per-enemy step is the per-asteroid step with the vertical factor as a parameter.\<close>

lemma update_enemy_translation:
  "m_translation (update_enemy f sd dt e) =
     \<lparr>vx = wrap_coord (vx (m_translation e) - of_int sd * dt),
      vy = wrap_coord (vy (m_translation e) - f * dt)\<rparr>"
  by (simp add: update_enemy_def wrap_coord_def Let_def)

lemma update_enemy_eq: "update_enemy 0.4 sd dt e = update_asteroid sd dt e"
  by (simp add: update_enemy_def update_asteroid_def wrap_coord_def Let_def)

lemma enemies_update_timer: "enemies_update gd dt s =
     (zigzag_timer dt s)\<lparr>m_asteroids :=
        map (update_enemy (fator_vel_jogo gd) (sentido (zigzag_timer dt s)) dt) (m_asteroids s)\<rparr>"
  by (simp add: enemies_update_def zigzag_timer_def Let_def)

lemma update_enemy_ok:
  assumes "actor_ok e" and "sd \<in> {-1, 1}" and "\<bar>dt\<bar> \<le> 2" and "\<bar>f * dt\<bar> \<le> 2"
  shows "actor_ok (update_enemy f sd dt e)"
proof -
  let ?t = "m_translation e"
  from assms(1) have box: "-1 \<le> vx ?t" "vx ?t \<le> 1" "-1 \<le> vy ?t" "vy ?t \<le> 1"
    by (simp_all add: actor_ok_def in_unit_box_def)
  have "\<bar>real_of_int sd\<bar> \<le> 1"
    using assms(2) by auto
  then have x: "-3 \<le> vx ?t - of_int sd * dt \<and> vx ?t - of_int sd * dt \<le> 3"
    using box assms(3) by (intro drift_range) simp_all
  have y: "-3 \<le> vy ?t - f * dt \<and> vy ?t - f * dt \<le> 3"
    using box assms(4) by linarith
  have "m_rotation (update_enemy f sd dt e) = glm_wrapAngle (m_rotation e + m_angularVelocity e * dt)"
    by (simp add: update_enemy_def Let_def)
  then show ?thesis
    using wrap_coord_range [of "vx ?t - of_int sd * dt"] wrap_coord_range [of "vy ?t - f * dt"] x y
      glm_wrapAngle_range [of "m_rotation e + m_angularVelocity e * dt"]
    by (simp add: actor_ok_def in_unit_box_def update_enemy_translation)
qed


section \<open>Properties of the enemy variant\<close>

text \<open>
  C23: with the speed factor 0.4, \<open>Enemies::update\<close> computes exactly what
  \<open>Asteroids::update\<close> computes, on every state and frame time: every result
  proved of the asteroid integrator holds for the enemy one.
\<close>

theorem enemies_update_refines:
  assumes "fator_vel_jogo gd = 0.4"
  shows "enemies_update gd dt s = asteroids_update dt s"
proof -
  have "update_enemy (fator_vel_jogo gd) = update_asteroid"
    unfolding assms by (intro ext) (rule update_enemy_eq)
  then show ?thesis
    by (simp add: enemies_update_timer asteroids_update_def Let_def)
qed

theorem enemies_update_refines_witness:
  "enemies_update \<lparr>fator_vel_jogo = 0.4\<rparr> (1 / 2) one_actor = asteroids_update (1 / 2) one_actor
   \<and> vy (m_translation (hd (m_asteroids (enemies_update \<lparr>fator_vel_jogo = 0.4\<rparr> (1 / 2) one_actor)))) = -0.2"
proof -
  have "vy (m_translation (hd (m_asteroids (asteroids_update (1 / 2) one_actor)))) = -0.2"
    by (simp add: one_actor_def eval_simps)
  then show ?thesis
    using enemies_update_refines [of "\<lparr>fator_vel_jogo = 0.4\<rparr>" "1 / 2" one_actor] by simp
qed

text \<open>
  C24: the formation invariant for every speed factor. If the formation
  satisfies \<open>formation_inv\<close>, \<open>0 \<le> dt \<le> 2\<close> and the vertical drift
  \<open>fator_vel_jogo * dt\<close> of the frame is at most 2 in absolute value, then after
  \<open>Enemies::update\<close> the direction is \<open>\<plusminus>1\<close>, the timer is in range and every
  enemy is in \<open>[-1, 1]\<^sup>2\<close> with its rotation in \<open>[0, 2\<pi>)\<close>.
\<close>

theorem enemies_update_inv:
  assumes "formation_inv s" and "0 \<le> dt" and "dt \<le> 2" and "\<bar>fator_vel_jogo gd * dt\<bar> \<le> 2"
  shows "formation_inv (enemies_update gd dt s)"
proof -
  have t: "timer_ok (zigzag_timer dt s)"
    using assms by (intro zigzag_timer_ok) (simp_all add: formation_inv_def)
  then have "sentido (zigzag_timer dt s) \<in> {-1, 1}"
    by (simp add: timer_ok_def)
  moreover have "\<bar>dt\<bar> \<le> 2"
    using assms(2,3) by simp
  ultimately have "\<forall>e \<in> set (m_asteroids s).
      actor_ok (update_enemy (fator_vel_jogo gd) (sentido (zigzag_timer dt s)) dt e)"
    using assms(1,4) update_enemy_ok by (simp add: formation_inv_def)
  then show ?thesis
    using t by (simp add: formation_inv_def timer_ok_def enemies_update_timer)
qed

theorem enemies_update_inv_witness:
  "formation_inv (enemies_update \<lparr>fator_vel_jogo = 3\<rparr> (1 / 2) one_actor)
   \<and> vy (m_translation (hd (m_asteroids (enemies_update \<lparr>fator_vel_jogo = 3\<rparr> (1 / 2) one_actor)))) = 0.5"
proof -
  have h: "0 \<le> (1 / 2 :: real)" "(1 / 2 :: real) \<le> 2" "\<bar>fator_vel_jogo \<lparr>fator_vel_jogo = 3\<rparr> * (1 / 2)\<bar> \<le> 2"
    by simp_all
  have "vy (m_translation (hd (m_asteroids (enemies_update \<lparr>fator_vel_jogo = 3\<rparr> (1 / 2) one_actor)))) = 0.5"
    by (simp add: one_actor_def eval_simps)
  then show ?thesis
    using enemies_update_inv [OF one_actor_inv h] by simp
qed

text \<open>
  C25: the enemy lifecycle is the asteroid lifecycle. \<open>Enemies::initializeGL\<close>,
  \<open>Enemies::paintGL\<close> and \<open>Enemies::terminateGL\<close> compute, on every state and
  context, the same result as their \<open>Asteroids\<close> counterparts, so the layout,
  resource and rendering properties (the 18-vertex draws included) hold for
  the enemies as well.
\<close>

theorem enemies_lifecycle_eq:
  "enemies_initializeGL p seed s g = asteroids_initializeGL p seed s g
   \<and> enemies_paintGL s g = asteroids_paintGL s g
   \<and> enemies_terminateGL s g = asteroids_terminateGL s g"
proof -
  have e1: "enemies_init_loop = init_loop"
    by (intro ext) (rule enemies_init_loop_eq)
  have e2: "enemies_terminateGL = asteroids_terminateGL"
    by (intro ext) (rule enemies_terminateGL_eq)
  have e3: "paint_enemy = paint_asteroid"
    by (intro ext) (rule paint_enemy_eq)
  show ?thesis
    unfolding enemies_initializeGL_def asteroids_initializeGL_def enemies_paintGL_def asteroids_paintGL_def
      e1 e2 e3 by simp
qed

end
