(* ===== verification/Spec2Isabelle.thy ===== *)
theory Spec2Isabelle
  imports Enemies
begin

text \<open>
  \<^bold>\<open>The enemy formation of the Atividade1 games, in HOL.\<close>

  The repository's core is two copies of one component: class \<open>Asteroids\<close>
  (\<open>src/examples/asteroids/asteroids.hpp\<close>, \<open>asteroids.cpp\<close>) and class \<open>Enemies\<close>
  (\<open>src/examples/ataqueATerra/enemies.cpp\<close>). Each builds a formation of
  \<open>CONST_QUANTIDADE_NAVES\<close> actors on a three-row grid (\<open>initializeGL\<close>), moves it
  every frame with a shared zig-zag direction, a downward drift and toroidal
  wrap-around (\<open>update\<close>), draws every actor as a 3x3 tiling (\<open>paintGL\<close>) and
  releases the GL objects (\<open>terminateGL\<close>). Actors are created by
  \<open>createAsteroid\<close>/\<open>createEnemy\<close> from three random draws and a 16-vertex fan.

  \<^bold>\<open>Theories.\<close>
  \<^item> \<open>Prelude\<close>: the glm types (\<open>vec2\<close>, \<open>vec4\<close> as records), \<open>glm::normalize\<close>,
    \<open>glm::mod\<close>, \<open>glm::wrapAngle\<close>, the error type, the collection
    \<open>eval_simps\<close> of definitions the witnesses evaluate by \<open>simp\<close>.
  \<^item> \<open>GL\<close>: the OpenGL context as a record (live names, counters, bindings,
    buffer contents, attribute sources, uniforms, a draw log) and one
    constructor of \<open>gl_cmd\<close> per call the sources make, run by \<open>gl_exec\<close>/\<open>gl_run\<close>;
    \<open>glGenBuffers\<close>/\<open>glGenVertexArrays\<close> return fresh names from counters.
  \<^item> \<open>Rng\<close>: libstdc++'s \<open>minstd_rand0\<close> (\<open>std::default_random_engine\<close>) and
    \<open>uniform_real_distribution<float>\<close> via \<open>generate_canonical<float, 24>\<close>, with
    the engine threaded explicitly; the state never leaves \<open>[1, 2^31 - 2]\<close>.
  \<^item> \<open>Asteroid\<close>: the \<open>Asteroid\<close> struct and the data members of \<open>Asteroids\<close>
    (records), \<open>createAsteroid\<close> (asteroids.cpp 116-185); C21, C22.
  \<^item> \<open>Motion\<close>: \<open>Asteroids::update\<close> (asteroids.cpp 92-114) as \<open>zigzag_timer\<close>,
    \<open>wrap_coord\<close>, \<open>update_asteroid\<close>, \<open>asteroids_update\<close>; the formation
    invariant and the zig-zag period; C1-C6.
  \<^item> \<open>Formation\<close>: \<open>Asteroids::initializeGL\<close> (6-56) as \<open>place_step\<close>, \<open>init_loop\<close>,
    \<open>asteroids_initializeGL\<close>, and \<open>terminateGL\<close> (85-90); the closed-form layout
    \<open>formation_slot\<close> of spec section 4.1 is the abstract specification the
    loop refines; C8-C13.
  \<^item> \<open>Resources\<close>: what initialisation and teardown do to the live GL names; C14-C16.
  \<^item> \<open>Render\<close>: \<open>Asteroids::paintGL\<close> (60-83) as the call sequence it issues and
    the draw log it produces; C17-C20.
  \<^item> \<open>Enemies\<close>: every member function of \<open>enemies.cpp\<close>, and their equivalence
    with the asteroid ones; C23-C25.
  \<^item> this theory: the lifecycle of the component as a step relation over
    events, its reachable states and their invariant; C7.

  \<^bold>\<open>Correspondence.\<close> State is passed explicitly: a member function becomes a
  function from the object (a record of its data members) and the GL context to
  the new object and context. \<open>float\<close>/\<open>double\<close> values are exact reals, so
  rounding is not modelled (in single precision \<open>glm::wrapAngle\<close> can return
  exactly \<open>2\<pi>\<close>, and the exact frame of a zig-zag flip can move by one).
  \<open>GLuint\<close> names are naturals from counters that never reuse a name; \<open>GLint\<close>
  locations are integers. The clock-based seed of \<open>initializeGL\<close> is a
  parameter (spec section 9). A negative \<open>CONST_QUANTIDADE_NAVES\<close> makes
  \<open>std::list::resize\<close> receive a huge \<open>size_t\<close>; libstdc++ then appends nodes
  until allocation fails, and the model returns \<open>Inl Bad_alloc\<close> on that path
  without claiming more about it. \<open>enemies.hpp\<close> and \<open>gamedata.hpp\<close> are
  absent: \<open>Enemy\<close>/\<open>Enemies\<close> reuse the asteroid types and \<open>GameData\<close> holds the
  speed factor only.

  \<^bold>\<open>Loops and fuel.\<close> Every loop of the sources is a range-for over a list or a
  fixed initializer list, so every operation is structural recursion
  (\<open>init_loop\<close>) or a \<open>fold\<close>/\<open>map\<close>: all definitions are total and executable,
  and no fuel or partial function is needed.

  \<^bold>\<open>What the lemmas show.\<close> The frame invariant of \<open>update\<close> and its per-actor
  wrap (C1, C3-C5), the zig-zag period and the reset that discards the overshoot
  (C2, C6); reseeding and the three draws per actor (C8, C10, C21, C22); the
  refinement of the spec's grid layout for every size, the box for sizes up to
  14 and its failure beyond (C9, C11, C12), the kept timer (C13); fresh and
  released GL names, no leak across rebuilds (C14-C16); the 3x3 tiling of
  \<open>paintGL\<close>, the draw of 18 vertices from a 16-vertex buffer (a code bug), the
  unrendered rotation and painting after teardown (C17-C20); the equivalence
  of the enemy variant (C23-C25); and, over the whole lifecycle, the formation
  invariant and at most \<open>N\<close> live allocations (C7).

  \<^bold>\<open>Not modelled.\<close> The window, event loop, shader compilation, the ship,
  bullets and game data of the applications are not in the repository; GL
  calls that only affect pixels (\<open>glUniform*\<close> beyond their stored values,
  rasterisation) are reduced to the draw log.
\<close>

section \<open>The lifecycle of a formation\<close>

text \<open>
  The owner of the formation (the window of the abcg application, not in the
  repository) calls \<open>initializeGL\<close> with a linked program and a clock seed,
  then per frame \<open>update\<close> and \<open>paintGL\<close>, and \<open>terminateGL\<close> when the scene
  is released (spec section 5). The events are modelled in any order, so the
  invariant below also covers restarts and painting after teardown. The game
  clock delivers frame times in \<open>[0, 2]\<close> (spec section 6: "expected > 0";
  section 4.2 assumes per-frame drift at most 2).
\<close>

datatype lifecycle_event = Init nat nat | Update real | Paint | Terminate

fun lifecycle_step :: "lifecycle_event \<Rightarrow> Asteroids \<Rightarrow> gl_state \<Rightarrow> error + Asteroids \<times> gl_state" where
  "lifecycle_step (Init program seed) s g = asteroids_initializeGL program seed s g"
| "lifecycle_step (Update deltaTime) s g = Inr (asteroids_update deltaTime s, g)"
| "lifecycle_step Paint s g = Inr (s, asteroids_paintGL s g)"
| "lifecycle_step Terminate s g = Inr (s, asteroids_terminateGL s g)"

fun clock_ok :: "lifecycle_event \<Rightarrow> bool" where
  "clock_ok (Update deltaTime) \<longleftrightarrow> 0 \<le> deltaTime \<and> deltaTime \<le> 2"
| "clock_ok _ \<longleftrightarrow> True"

text \<open>States reachable from the object as constructed and a fresh context.\<close>

inductive reachable :: "Asteroids \<Rightarrow> gl_state \<Rightarrow> bool" where
  start: "reachable Asteroids_default (gl_init ul al)"
| step: "reachable s g \<Longrightarrow> clock_ok e \<Longrightarrow> lifecycle_step e s g = Inr (s', g') \<Longrightarrow> reachable s' g'"

text \<open>
  The lifecycle invariant: the formation invariant of the integrator, the
  configured size within the supported range, and ownership of the context:
  every live buffer and vertex array is the name of one of the actors.
\<close>

definition lifecycle_inv :: "Asteroids \<Rightarrow> gl_state \<Rightarrow> bool" where
  "lifecycle_inv s g \<longleftrightarrow> formation_inv s \<and> m_randomDist s = (-1, 1)
     \<and> 0 \<le> CONST_QUANTIDADE_NAVES s \<and> CONST_QUANTIDADE_NAVES s \<le> 14
     \<and> length (m_asteroids s) \<le> nat (CONST_QUANTIDADE_NAVES s)
     \<and> gl_names_ok g \<and> gl_buffers g \<subseteq> set (map m_vbo (m_asteroids s))
     \<and> gl_arrays g \<subseteq> set (map m_vao (m_asteroids s))"

section \<open>The invariant is kept by every event\<close>

lemma lifecycle_inv_start: "lifecycle_inv Asteroids_default (gl_init ul al)"
  by (simp add: lifecycle_inv_def formation_inv_def timer_ok_def Asteroids_default_def
      gl_names_ok_def gl_init_def)

lemma asteroids_update_dist [simp]: "m_randomDist (asteroids_update dt s) = m_randomDist s"
  by (simp add: asteroids_update_def zigzag_timer_def Let_def)

lemma update_asteroid_names [simp]:
  "m_vbo (update_asteroid sd dt a) = m_vbo a" "m_vao (update_asteroid sd dt a) = m_vao a"
  by (simp_all add: update_asteroid_def Let_def)

lemma lifecycle_inv_update:
  assumes "lifecycle_inv s g" and "0 \<le> dt" and "dt \<le> 2"
  shows "lifecycle_inv (asteroids_update dt s) g"
proof -
  have t: "timer_ok (zigzag_timer dt s)"
    using assms by (intro zigzag_timer_ok) (simp_all add: lifecycle_inv_def formation_inv_def)
  then have "sentido (zigzag_timer dt s) \<in> {-1, 1}"
    by (simp add: timer_ok_def)
  moreover have "\<bar>dt\<bar> \<le> 2"
    using assms(2,3) by simp
  ultimately have "\<forall>a \<in> set (m_asteroids s). actor_ok (update_asteroid (sentido (zigzag_timer dt s)) dt a)"
    using assms(1) update_asteroid_ok by (simp add: lifecycle_inv_def formation_inv_def)
  with t assms(1) show ?thesis
    by (simp add: lifecycle_inv_def formation_inv_def timer_ok_def comp_def)
qed

lemma lifecycle_inv_paint:
  assumes "lifecycle_inv s g"
  shows "lifecycle_inv s (asteroids_paintGL s g)"
proof -
  let ?cs = "[UseProgram (m_program s)] @ concat (map (paint_asteroid s) (m_asteroids s)) @ [UseProgram 0]"
  have "gl_buffers (gl_run ?cs g) \<subseteq> gl_buffers g" "gl_arrays (gl_run ?cs g) \<subseteq> gl_arrays g"
    by (rule gl_run_sets)+
  moreover have "gl_names_ok (gl_run ?cs g)"
    using assms by (intro gl_run_names_ok) (simp add: lifecycle_inv_def)
  ultimately show ?thesis
    using assms unfolding lifecycle_inv_def asteroids_paintGL_def by blast
qed

lemma lifecycle_inv_terminate:
  assumes "lifecycle_inv s g"
  shows "lifecycle_inv s (asteroids_terminateGL s g)"
proof -
  have "gl_buffers (asteroids_terminateGL s g) \<subseteq> gl_buffers g"
    "gl_arrays (asteroids_terminateGL s g) \<subseteq> gl_arrays g"
    using fold_terminate_gl [of "m_asteroids s" g] by (auto simp: asteroids_terminateGL_def)
  moreover have "gl_names_ok (asteroids_terminateGL s g)"
    using assms by (intro terminateGL_names_ok) (simp add: lifecycle_inv_def)
  ultimately show ?thesis
    using assms unfolding lifecycle_inv_def by blast
qed

text \<open>A built formation of at most 14 actors starts inside the box with rotation 0.\<close>

lemma initializeGL_actors_ok:
  assumes "0 \<le> CONST_QUANTIDADE_NAVES s" and "CONST_QUANTIDADE_NAVES s \<le> 14"
    and "m_randomDist s = (-1, 1)" and "asteroids_initializeGL p seed s g = Inr (s', g')"
  shows "\<forall>a \<in> set (m_asteroids s'). actor_ok a"
proof
  fix a
  assume a: "a \<in> set (m_asteroids s')"
  obtain s1 g1 where r1: "asteroids_initializeGL p seed s g = Inr (s1, g1)"
    and t: "map m_translation (m_asteroids s1) = map formation_slot [1..CONST_QUANTIDADE_NAVES s]"
    using initializeGL_result [OF assms(1)] by blast
  obtain s2 g2 s3 g3 where r2: "asteroids_initializeGL p seed s g = Inr (s2, g2)"
    and l: "m_asteroids s2 = fst (init_loop (replicate (nat (CONST_QUANTIDADE_NAVES s)) Asteroid_default) 1 (-0.8) s3 g3)"
    and e: "minstd_ok (m_randomEngine s3)" and d: "m_randomDist s3 = m_randomDist s"
    by (rule initializeGL_loop [OF assms(1), of p seed g])
  have eq: "s1 = s'" "s2 = s'"
    using assms(4) r1 r2 by simp_all
  have "m_translation a \<in> set (map formation_slot [1..CONST_QUANTIDADE_NAVES s])"
    using a t eq by (metis image_eqI list.set_map)
  then obtain i where "1 \<le> i" "i \<le> CONST_QUANTIDADE_NAVES s" "m_translation a = formation_slot i"
    by auto
  then have "in_unit_box (m_translation a)"
    using assms(2) formation_slot_in_box by simp
  moreover have "m_rotation a = 0"
    using init_loop_actors [OF e, of _ 1 "-0.8" g3] d assms(3) a eq l by auto
  ultimately show "actor_ok a"
    by (simp add: actor_ok_def)
qed

lemma lifecycle_inv_init:
  assumes "lifecycle_inv s g" and "asteroids_initializeGL p seed s g = Inr (s', g')"
  shows "lifecycle_inv s' g'"
proof -
  let ?n = "nat (CONST_QUANTIDADE_NAVES s)"
  have n: "0 \<le> CONST_QUANTIDADE_NAVES s" "CONST_QUANTIDADE_NAVES s \<le> 14" and ok: "gl_names_ok g"
    and own: "gl_buffers g \<subseteq> set (map m_vbo (m_asteroids s))" "gl_arrays g \<subseteq> set (map m_vao (m_asteroids s))"
    and tm: "timer_ok s" and d: "m_randomDist s = (-1, 1)"
    using assms(1) by (simp_all add: lifecycle_inv_def formation_inv_def)
  obtain s1 g1 where r1: "asteroids_initializeGL p seed s g = Inr (s1, g1)"
    and b: "map m_vbo (m_asteroids s1) = [gl_next_buffer g..<gl_next_buffer g + ?n]"
    and v: "map m_vao (m_asteroids s1) = [gl_next_array g..<gl_next_array g + ?n]"
    and gb: "gl_buffers g1 = (gl_buffers g - set (map m_vbo (m_asteroids s)))
                          \<union> {gl_next_buffer g..<gl_next_buffer g + ?n}"
    and ga: "gl_arrays g1 = (gl_arrays g - set (map m_vao (m_asteroids s)))
                          \<union> {gl_next_array g..<gl_next_array g + ?n}"
    and ok1: "gl_names_ok g1"
    by (rule initializeGL_gl [OF n(1) ok])
  obtain s2 g2 where r2: "asteroids_initializeGL p seed s g = Inr (s2, g2)"
    and "map m_translation (m_asteroids s2) = map formation_slot [1..CONST_QUANTIDADE_NAVES s]"
    and f: "CONST_QUANTIDADE_NAVES s2 = CONST_QUANTIDADE_NAVES s" "sentido s2 = sentido s"
      "tempo_atual_restante s2 = tempo_atual_restante s" "CONST_TEMPO_ZIG_ZAG s2 = CONST_TEMPO_ZIG_ZAG s"
      "m_randomDist s2 = m_randomDist s"
    by (rule initializeGL_result [OF n(1)])
  have eq: "s1 = s'" "g1 = g'" "s2 = s'"
    using assms(2) r1 r2 by simp_all
  have "gl_buffers g' = set (map m_vbo (m_asteroids s'))"
    using gb own(1) b eq by auto
  moreover have "gl_arrays g' = set (map m_vao (m_asteroids s'))"
    using ga own(2) v eq by auto
  moreover have "length (m_asteroids s') = ?n"
    using arg_cong [OF b, of length] eq by simp
  moreover have "\<forall>a \<in> set (m_asteroids s'). actor_ok a"
    using initializeGL_actors_ok [OF n d assms(2)] .
  moreover have "timer_ok s'"
    using tm f eq by (simp add: timer_ok_def)
  ultimately show ?thesis
    using f eq ok1 n d by (simp add: lifecycle_inv_def formation_inv_def)
qed

lemma lifecycle_step_inv:
  assumes "lifecycle_inv s g" and "clock_ok e" and "lifecycle_step e s g = Inr (s', g')"
  shows "lifecycle_inv s' g'"
  using assms
proof (cases e)
  case (Init p seed)
  then show ?thesis
    using assms lifecycle_inv_init by simp
next
  case (Update dt)
  then show ?thesis
    using assms lifecycle_inv_update by auto
next
  case Paint
  then show ?thesis
    using assms lifecycle_inv_paint by auto
next
  case Terminate
  then show ?thesis
    using assms lifecycle_inv_terminate by auto
qed

lemma reachable_inv: "reachable s g \<Longrightarrow> lifecycle_inv s g"
proof (induction rule: reachable.induct)
  case (start ul al)
  show ?case by (rule lifecycle_inv_start)
next
  case (step s g e s' g')
  then show ?case by (blast intro: lifecycle_step_inv)
qed

lemma card_names_le: "card (set (map f xs)) \<le> length xs"
  using card_length [of "map f xs"] by simp

section \<open>Safety of the lifecycle\<close>

text \<open>
  C7: the spec's two invariants over the whole lifecycle. In every state
  reachable by any sequence of \<open>initializeGL\<close>, \<open>update\<close> (frame times in
  \<open>[0, 2]\<close>), \<open>paintGL\<close> and \<open>terminateGL\<close> calls, the formation invariant
  holds (direction \<open>\<plusminus>1\<close>, timer in range, every actor in \<open>[-1, 1]\<^sup>2\<close> with
  rotation in \<open>[0, 2\<pi>)\<close>), the GL names are well formed, and at most \<open>N\<close>
  buffers and \<open>N\<close> vertex arrays are live ("at most N live geometry allocations
  at any time", spec section 4.1).
\<close>

theorem lifecycle_safe:
  assumes "reachable s g"
  shows "formation_inv s \<and> gl_names_ok g
    \<and> card (gl_buffers g) \<le> nat (CONST_QUANTIDADE_NAVES s)
    \<and> card (gl_arrays g) \<le> nat (CONST_QUANTIDADE_NAVES s)"
proof -
  have inv: "lifecycle_inv s g"
    using assms by (rule reachable_inv)
  then have "card (gl_buffers g) \<le> card (set (map m_vbo (m_asteroids s)))"
    "card (gl_arrays g) \<le> card (set (map m_vao (m_asteroids s)))"
    by (simp_all add: lifecycle_inv_def card_mono)
  then show ?thesis
    using inv card_names_le [of m_vbo "m_asteroids s"] card_names_le [of m_vao "m_asteroids s"]
    by (simp add: lifecycle_inv_def)
qed

theorem lifecycle_safe_witness:
  "\<exists>s g. reachable s g \<and> length (m_asteroids s) = 14 \<and> formation_inv s
     \<and> card (gl_buffers g) \<le> 14 \<and> card (gl_arrays g) \<le> 14"
proof -
  let ?g0 = "gl_init (\<lambda>_ _. 0) (\<lambda>_ _. 0)"
  have h: "0 \<le> CONST_QUANTIDADE_NAVES Asteroids_default"
    by (simp add: Asteroids_default_def)
  obtain s1 g1 where r: "asteroids_initializeGL 1 42 Asteroids_default ?g0 = Inr (s1, g1)"
    and t: "map m_translation (m_asteroids s1) = map formation_slot [1..CONST_QUANTIDADE_NAVES Asteroids_default]"
    and n: "CONST_QUANTIDADE_NAVES s1 = CONST_QUANTIDADE_NAVES Asteroids_default"
    by (rule initializeGL_result [OF h, of 1 42 ?g0]) blast+
  have "reachable s1 g1"
    by (rule reachable.step [OF reachable.start [of "\<lambda>_ _. 0" "\<lambda>_ _. 0"], of "Init 1 42"]) (simp_all only: lifecycle_step.simps clock_ok.simps r)
  then have "reachable (asteroids_update (1 / 2) s1) g1"
    by (rule reachable.step [of _ _ "Update (1 / 2)"]) simp_all
  then have run: "reachable (asteroids_update (1 / 2) s1) (asteroids_paintGL (asteroids_update (1 / 2) s1) g1)"
    by (rule reachable.step [of _ _ Paint]) simp_all
  have "length (m_asteroids s1) = 14"
    using arg_cong [OF t, of length] by (simp add: Asteroids_default_def)
  then have len: "length (m_asteroids (asteroids_update (1 / 2) s1)) = 14"
    by simp
  have "nat (CONST_QUANTIDADE_NAVES (asteroids_update (1 / 2) s1)) = 14"
    using n by (simp add: Asteroids_default_def)
  with lifecycle_safe [OF run] run len show ?thesis
    by (intro exI [of _ "asteroids_update (1 / 2) s1"]
        exI [of _ "asteroids_paintGL (asteroids_update (1 / 2) s1) g1"]) simp
qed

end
